theory Spec2Isabelle
  imports Main "HOL-Library.AList"
begin

section \<open>Python values used by the ETL module\<close>

subsection \<open>Strings\<close>

text \<open>
  A Python \<^verbatim>\<open>str\<close> is a \<^typ>\<open>string\<close>. The module only inspects ASCII keywords, so
  \<^verbatim>\<open>str.lower\<close> folds the letters A to Z and leaves every other character alone, and
  \<^verbatim>\<open>str.isdigit\<close> accepts the digits 0 to 9.
\<close>

definition ascii_uppercase :: string where
  "ascii_uppercase = ''ABCDEFGHIJKLMNOPQRSTUVWXYZ''"

definition ascii_lowercase :: string where
  "ascii_lowercase = ''abcdefghijklmnopqrstuvwxyz''"

definition lower_char :: "char \<Rightarrow> char" where
  "lower_char c =
     (case map_of (zip ascii_uppercase ascii_lowercase) c of Some l \<Rightarrow> l | None \<Rightarrow> c)"

definition lower :: "string \<Rightarrow> string" where
  "lower s = map lower_char s"

fun startswith :: "string \<Rightarrow> string \<Rightarrow> bool" where
  "startswith s [] = True"
| "startswith [] (p # ps) = False"
| "startswith (c # cs) (p # ps) = (c = p \<and> startswith cs ps)"

text \<open>\<^verbatim>\<open>sub in s\<close>: the substring test.\<close>

fun contains :: "string \<Rightarrow> string \<Rightarrow> bool" where
  "contains sub [] = (sub = [])"
| "contains sub (c # cs) = (startswith (c # cs) sub \<or> contains sub cs)"

text \<open>
  \<^verbatim>\<open>s.replace(old, new)\<close>: every non-overlapping occurrence, left to right. Both call
  sites pass a non-empty \<^verbatim>\<open>old\<close>.
\<close>

fun replace :: "string \<Rightarrow> string \<Rightarrow> string \<Rightarrow> string" where
  "replace old new [] = []"
| "replace old new (c # cs) =
     (if old \<noteq> [] \<and> startswith (c # cs) old
      then new @ replace old new (drop (length old) (c # cs))
      else c # replace old new cs)"

definition digit_chars :: string where
  "digit_chars = ''0123456789''"

definition isdigit :: "string \<Rightarrow> bool" where
  "isdigit s = (s \<noteq> [] \<and> (\<forall>c \<in> set s. c \<in> set digit_chars))"

definition digit_value :: "char \<Rightarrow> int" where
  "digit_value c = (case map_of (zip digit_chars [0, 1, 2, 3, 4, 5, 6, 7, 8, 9]) c of
                      Some d \<Rightarrow> d | None \<Rightarrow> 0)"

text \<open>\<^verbatim>\<open>int(s)\<close> on a string of decimal digits.\<close>

definition int_of_digits :: "string \<Rightarrow> int" where
  "int_of_digits s = foldl (\<lambda>acc c. 10 * acc + digit_value c) 0 s"

text \<open>The \<^verbatim>\<open>%0wd\<close> conversions of a field that fits in \<open>w\<close> digits.\<close>

definition zero_padded :: "nat \<Rightarrow> nat \<Rightarrow> string" where
  "zero_padded w n = map (\<lambda>i. digit_chars ! ((n div 10 ^ i) mod 10)) (rev [0..<w])"

text \<open>Truthiness of an optional string: \<^verbatim>\<open>None\<close> and the empty string are falsy.\<close>

definition truthy :: "string option \<Rightarrow> bool" where
  "truthy v = (case v of None \<Rightarrow> False | Some s \<Rightarrow> s \<noteq> [])"

subsection \<open>Exceptions\<close>

text \<open>
  The exception classes the module's handlers tell apart, and the text of \<^verbatim>\<open>str(e)\<close>,
  which some handlers search. \<open>ConnectionError\<close> and \<open>TimeoutError\<close> are subclasses of
  \<open>OSError\<close>; the two \<open>ApiException\<close> classes of the HubSpot client carry the HTTP
  status.
\<close>

datatype exc_class =
    DealsApiException nat
  | ContactsApiException nat
  | ConnectionError
  | TimeoutError
  | OSError
  | AttributeError
  | ValueError
  | TypeError
  | OverflowError
  | KeyError
  | GoogleAPIError
  | OtherException

record exception =
  exc_class :: exc_class
  exc_str :: string

definition raise :: "exc_class \<Rightarrow> string \<Rightarrow> exception + 'a" where
  "raise c m = Inl \<lparr>exc_class = c, exc_str = m\<rparr>"

text \<open>\<^verbatim>\<open>except (ConnectionError, TimeoutError, OSError)\<close>\<close>

definition is_network_error :: "exception \<Rightarrow> bool" where
  "is_network_error e = (exc_class e \<in> {ConnectionError, TimeoutError, OSError})"

text \<open>\<^verbatim>\<open>'SSL' in str(e) or 'EOF' in str(e) or 'connection' in str(e).lower()\<close>\<close>

definition is_connection_message :: "string \<Rightarrow> bool" where
  "is_connection_message m =
     (contains ''SSL'' m \<or> contains ''EOF'' m \<or> contains ''connection'' (lower m))"

text \<open>
  A failure of a contact lookup is transient when it is not an API exception of the contacts
  client and is a network error or carries a connection message.
\<close>

definition is_contacts_api_exception :: "exception \<Rightarrow> bool" where
  "is_contacts_api_exception e =
     (case exc_class e of ContactsApiException http_status \<Rightarrow> True | _ \<Rightarrow> False)"

definition is_transient :: "exception \<Rightarrow> bool" where
  "is_transient e =
     (\<not> is_contacts_api_exception e \<and> (is_network_error e \<or> is_connection_message (exc_str e)))"

subsection \<open>Dates and times\<close>

datatype tzinfo = UTC

record datetime =
  year :: nat
  month :: nat
  day :: nat
  hour :: nat
  minute :: nat
  second :: nat
  microsecond :: nat
  tzinfo :: "tzinfo option"

record timedelta =
  days :: int
  seconds :: int
  microseconds :: int

text \<open>The constructor \<^verbatim>\<open>timedelta(days, seconds, microseconds)\<close> normalises its fields.\<close>

definition mk_timedelta :: "int \<Rightarrow> int \<Rightarrow> int \<Rightarrow> timedelta" where
  "mk_timedelta d s us =
     (let s1 = s + us div 1000000;
          us1 = us mod 1000000;
          d1 = d + s1 div 86400;
          s2 = s1 mod 86400
      in \<lparr>days = d1, seconds = s2, microseconds = us1\<rparr>)"

definition is_leap :: "nat \<Rightarrow> bool" where
  "is_leap y = (y mod 4 = 0 \<and> (y mod 100 \<noteq> 0 \<or> y mod 400 = 0))"

definition days_before_year :: "nat \<Rightarrow> int" where
  "days_before_year y =
     (let y1 = int y - 1 in y1 * 365 + y1 div 4 - y1 div 100 + y1 div 400)"

definition DAYS_BEFORE_MONTH :: "int list" where
  "DAYS_BEFORE_MONTH = [0, 0, 31, 59, 90, 120, 151, 181, 212, 243, 273, 304, 334]"

definition days_before_month :: "nat \<Rightarrow> nat \<Rightarrow> int" where
  "days_before_month y m =
     (if m < length DAYS_BEFORE_MONTH then DAYS_BEFORE_MONTH ! m else 0)
       + (if 2 < m \<and> is_leap y then 1 else 0)"

definition toordinal :: "datetime \<Rightarrow> int" where
  "toordinal dt = days_before_year (year dt) + days_before_month (year dt) (month dt) + int (day dt)"

text \<open>
  \<^verbatim>\<open>a - b\<close> on datetimes: a \<open>TypeError\<close> when exactly one of them is naive; otherwise
  the normalised difference (both zones are UTC, so no offset is applied).
\<close>

definition datetime_sub :: "datetime \<Rightarrow> datetime \<Rightarrow> exception + timedelta" where
  "datetime_sub a b =
     (if (tzinfo a = None) \<noteq> (tzinfo b = None)
      then raise TypeError ''can't subtract offset-naive and offset-aware datetimes''
      else Inr (mk_timedelta
             (toordinal a - toordinal b)
             ((int (second a) + int (minute a) * 60 + int (hour a) * 3600)
                - (int (second b) + int (minute b) * 60 + int (hour b) * 3600))
             (int (microsecond a) - int (microsecond b))))"

text \<open>The instant of a datetime in microseconds, counted from midnight before ordinal 1.\<close>

definition US_PER_DAY :: int where
  "US_PER_DAY = 86400000000"

definition to_microseconds :: "datetime \<Rightarrow> int" where
  "to_microseconds dt =
     ((toordinal dt * 86400 + (int (second dt) + int (minute dt) * 60 + int (hour dt) * 3600))
        * 1000000 + int (microsecond dt))"

text \<open>\<^verbatim>\<open>date.isoformat()\<close> and \<^verbatim>\<open>datetime.isoformat()\<close>.\<close>

definition date_isoformat :: "datetime \<Rightarrow> string" where
  "date_isoformat dt =
     zero_padded 4 (year dt) @ ''-'' @ zero_padded 2 (month dt) @ ''-'' @ zero_padded 2 (day dt)"

definition isoformat :: "datetime \<Rightarrow> string" where
  "isoformat dt =
     date_isoformat dt @ ''T''
       @ zero_padded 2 (hour dt) @ '':'' @ zero_padded 2 (minute dt) @ '':''
       @ zero_padded 2 (second dt)
       @ (if microsecond dt \<noteq> 0 then ''.'' @ zero_padded 6 (microsecond dt) else [])
       @ (case tzinfo dt of None \<Rightarrow> [] | Some UTC \<Rightarrow> ''+00:00'')"

subsection \<open>The standard library\<close>

text \<open>
  The library calls whose results depend on parsing or on floating point are parameters
  of the model: \<^verbatim>\<open>datetime.strptime(s, fmt)\<close>, \<^verbatim>\<open>datetime.fromtimestamp(ms / 1000, tz=tz)\<close>
  (given the integer \<open>ms\<close>), \<^verbatim>\<open>datetime.fromisoformat(s)\<close>, \<^verbatim>\<open>float(s)\<close> and the product
  of two floats. \<open>'f\<close> is the type of floats.
\<close>

record 'f pylib =
  strptime :: "string \<Rightarrow> string \<Rightarrow> exception + datetime"
  fromtimestamp :: "int \<Rightarrow> tzinfo \<Rightarrow> exception + datetime"
  fromisoformat :: "string \<Rightarrow> exception + datetime"
  float_of :: "string \<Rightarrow> exception + 'f"
  float_mul :: "'f \<Rightarrow> 'f \<Rightarrow> 'f"

section \<open>Timestamp normalisation\<close>

definition TIMESTAMP_FORMATS :: "string list" where
  "TIMESTAMP_FORMATS =
     [''%Y-%m-%dT%H:%M:%S.%fZ'',
      ''%Y-%m-%dT%H:%M:%SZ'',
      ''%Y-%m-%dT%H:%M:%S.%f'',
      ''%Y-%m-%dT%H:%M:%S'',
      ''%Y-%m-%d'']"

text \<open>
  The loop over the formats: a \<open>ValueError\<close> moves on to the next format, any other
  exception leaves the loop, the first parse that succeeds is returned with its zone set
  to UTC.
\<close>

fun try_formats :: "'f pylib \<Rightarrow> string \<Rightarrow> string list \<Rightarrow> exception + string option" where
  "try_formats lib s [] = Inr None"
| "try_formats lib s (fmt # fmts) =
     (let ts = replace ''Z'' [] (replace ''+00:00'' ''Z'' s) in
      case strptime lib ts (replace ''Z'' [] fmt) of
        Inr dt \<Rightarrow> Inr (Some (isoformat (dt\<lparr>tzinfo := Some UTC\<rparr>)))
      | Inl e \<Rightarrow> if exc_class e = ValueError then try_formats lib s fmts else Inl e)"

text \<open>The body of the \<^verbatim>\<open>try\<close> block.\<close>

definition convert_body :: "'f pylib \<Rightarrow> string \<Rightarrow> exception + string option" where
  "convert_body lib s =
     (if isdigit s then
        (case fromtimestamp lib (int_of_digits s) UTC of
           Inl e \<Rightarrow> Inl e
         | Inr dt \<Rightarrow> Inr (Some (isoformat dt)))
      else if CHR ''T'' \<in> set s \<or> CHR ''-'' \<in> set s then try_formats lib s TIMESTAMP_FORMATS
      else Inr None)"

definition convert_hubspot_timestamp :: "'f pylib \<Rightarrow> string option \<Rightarrow> exception + string option" where
  "convert_hubspot_timestamp lib timestamp_str =
     (case timestamp_str of
        None \<Rightarrow> Inr None
      | Some s \<Rightarrow>
          if s = [] then Inr None
          else (case convert_body lib s of
                  Inl e \<Rightarrow> Inr None
                | Inr r \<Rightarrow> Inr r))"

definition parse_timestamp_to_datetime :: "'f pylib \<Rightarrow> string option \<Rightarrow> exception + datetime option" where
  "parse_timestamp_to_datetime lib timestamp_str =
     (if \<not> truthy timestamp_str then Inr None
      else case convert_hubspot_timestamp lib timestamp_str of
             Inl e \<Rightarrow> Inl e
           | Inr iso_str \<Rightarrow>
               (case iso_str of
                  None \<Rightarrow> Inr None
                | Some iso_text \<Rightarrow>
                    if iso_text = [] then Inr None
                    else (case fromisoformat lib (replace ''Z'' ''+00:00'' iso_text) of
                            Inl e \<Rightarrow> Inr None
                          | Inr dt \<Rightarrow> Inr (Some dt))))"

text \<open>
  The outcome of each format on the cleaned string, in the order of the list, and the
  first outcome that is not a \<open>ValueError\<close>.
\<close>

definition cleaned :: "string \<Rightarrow> string" where
  "cleaned s = replace ''Z'' [] (replace ''+00:00'' ''Z'' s)"

definition parse_attempts :: "'f pylib \<Rightarrow> string \<Rightarrow> (exception + datetime) list" where
  "parse_attempts lib s =
     map (\<lambda>fmt. strptime lib (cleaned s) (replace ''Z'' [] fmt)) TIMESTAMP_FORMATS"

definition is_value_error :: "exception + datetime \<Rightarrow> bool" where
  "is_value_error r = (case r of Inl e \<Rightarrow> exc_class e = ValueError | Inr dt \<Rightarrow> False)"

definition first_parse :: "(exception + datetime) list \<Rightarrow> string option" where
  "first_parse attempts =
     (case dropWhile is_value_error attempts of
        Inr dt # rest \<Rightarrow> Some (isoformat (dt\<lparr>tzinfo := Some UTC\<rparr>))
      | _ \<Rightarrow> None)"

definition endswith :: "string \<Rightarrow> string \<Rightarrow> bool" where
  "endswith s suffix = startswith (rev s) (rev suffix)"

section \<open>Numeric coercion and the age status\<close>

definition safe_float :: "'f pylib \<Rightarrow> string option \<Rightarrow> 'f option" where
  "safe_float lib v =
     (case v of
        None \<Rightarrow> None
      | Some s \<Rightarrow>
          if s = [] then None
          else (case float_of lib s of
                  Inr x \<Rightarrow> Some x
                | Inl e \<Rightarrow> None))"

definition EARLY_KEYWORDS :: "string list" where
  "EARLY_KEYWORDS = [''nbm'', ''discovery'', ''qualification'', ''prospecting'', ''lead'', ''scheduled'']"

definition MID_KEYWORDS :: "string list" where
  "MID_KEYWORDS = [''technical'', ''evaluation'', ''demo'', ''proposal'']"

definition LATE_KEYWORDS :: "string list" where
  "LATE_KEYWORDS = [''negotiation'', ''contract'', ''closing'', ''final'']"

text \<open>\<^verbatim>\<open>any(s in stage_lower for s in keywords)\<close>\<close>

definition any_in :: "string list \<Rightarrow> string \<Rightarrow> bool" where
  "any_in keywords stage_lower = list_ex (\<lambda>s. contains s stage_lower) keywords"

definition calculate_deal_age_status :: "int option \<Rightarrow> string \<Rightarrow> string" where
  "calculate_deal_age_status days_in_stage dealstage =
     (case days_in_stage of
        None \<Rightarrow> ''Unknown''
      | Some d \<Rightarrow>
          let stage_lower = lower dealstage in
          if contains ''stalled'' stage_lower \<or> contains ''delayed'' stage_lower then
            (if d \<le> 14 then ''Yellow'' else ''Red'')
          else if any_in EARLY_KEYWORDS stage_lower then
            (if d \<le> 14 then ''Green'' else if d \<le> 30 then ''Yellow'' else ''Red'')
          else if any_in MID_KEYWORDS stage_lower then
            (if d \<le> 30 then ''Green'' else if d \<le> 45 then ''Yellow'' else ''Red'')
          else if any_in LATE_KEYWORDS stage_lower then
            (if d \<le> 45 then ''Green'' else if d \<le> 60 then ''Yellow'' else ''Red'')
          else
            (if d \<le> 21 then ''Green'' else if d \<le> 45 then ''Yellow'' else ''Red''))"

text \<open>
  The classification as documented: the category of a stage label, tried in the order of
  the code, and one (Green, Yellow) pair of upper bounds per category, where no Yellow bound
  stands for infinity.
\<close>

datatype stage_category = StalledDelayed | Early | Mid | Late | UnknownCategory

definition stage_category :: "string \<Rightarrow> stage_category" where
  "stage_category dealstage =
     (let stage_lower = lower dealstage in
      if contains ''stalled'' stage_lower \<or> contains ''delayed'' stage_lower then StalledDelayed
      else if any_in EARLY_KEYWORDS stage_lower then Early
      else if any_in MID_KEYWORDS stage_lower then Mid
      else if any_in LATE_KEYWORDS stage_lower then Late
      else UnknownCategory)"

definition documented_boundaries :: "stage_category \<Rightarrow> int \<times> int option" where
  "documented_boundaries c =
     (case c of
        StalledDelayed \<Rightarrow> (14, None)
      | Early \<Rightarrow> (14, Some 30)
      | Mid \<Rightarrow> (30, Some 45)
      | Late \<Rightarrow> (45, Some 60)
      | UnknownCategory \<Rightarrow> (21, Some 45))"

definition documented_age_status :: "int \<Rightarrow> string \<Rightarrow> string" where
  "documented_age_status d dealstage =
     (let (green, yellow) = documented_boundaries (stage_category dealstage) in
      if d \<le> green then ''Green''
      else if (case yellow of None \<Rightarrow> True | Some y \<Rightarrow> d \<le> y) then ''Yellow''
      else ''Red'')"

section \<open>Reference data\<close>

definition TARGET_PIPELINE_NAME :: string where
  "TARGET_PIPELINE_NAME = ''3PL New Business''"

text \<open>The pipeline and stage objects of the API, and the two dictionaries built from them.\<close>

record api_stage =
  s_id :: string
  s_label :: string

record api_pipeline =
  p_id :: string
  p_label :: string
  p_stages :: "api_stage list"

record pipeline_entry =
  entry_label :: string
  entry_stages :: "(string \<times> string) list"
  entry_stage_order :: "(string \<times> nat) list"

record stage_entry =
  st_label :: string
  st_pipeline_id :: string
  st_order :: nat

type_synonym pipelines_dict = "(string \<times> pipeline_entry) list"
type_synonym stages_dict = "(string \<times> stage_entry) list"

text \<open>
  Log records carry their level and what the message reports; the rendering of the message
  text is left out.
\<close>

datatype level = DEBUG | INFO | WARNING | ERROR

datatype message =
    FetchingPipelines
  | FoundTargetPipeline string string
  | FetchedPipelines nat
  | TargetPipelineNotFound string "string list"
  | CouldNotFetchPipelines exception

type_synonym log = "(level \<times> message) list"

text \<open>
  A dictionary that keeps insertion order is an association list; \<^const>\<open>AList.update\<close>
  overwrites a key in place and appends a new one, as assignment to a \<^verbatim>\<open>dict\<close> does.
\<close>

fun index_stages ::
  "string \<Rightarrow> nat \<Rightarrow> api_stage list \<Rightarrow> pipeline_entry \<Rightarrow> stages_dict \<Rightarrow> pipeline_entry \<times> stages_dict"
where
  "index_stages pipeline_id idx [] entry stages_dict = (entry, stages_dict)"
| "index_stages pipeline_id idx (stage # rest) entry stages_dict =
     index_stages pipeline_id (Suc idx) rest
       (entry\<lparr>entry_stages := AList.update (s_id stage) (s_label stage) (entry_stages entry),
              entry_stage_order := AList.update (s_id stage) idx (entry_stage_order entry)\<rparr>)
       (AList.update (s_id stage)
          \<lparr>st_label = s_label stage, st_pipeline_id = pipeline_id, st_order = idx\<rparr> stages_dict)"

fun index_pipelines ::
  "api_pipeline list \<Rightarrow> pipelines_dict \<Rightarrow> stages_dict \<Rightarrow> string option \<Rightarrow> log
     \<Rightarrow> pipelines_dict \<times> stages_dict \<times> string option \<times> log"
where
  "index_pipelines [] pipelines_dict stages_dict target_pipeline_id logs =
     (pipelines_dict, stages_dict, target_pipeline_id, logs)"
| "index_pipelines (pipeline # rest) pipelines_dict stages_dict target_pipeline_id logs =
     (let is_target = (p_label pipeline = TARGET_PIPELINE_NAME);
          target' = (if is_target then Some (p_id pipeline) else target_pipeline_id);
          logs' = (if is_target
                   then logs @ [(INFO, FoundTargetPipeline TARGET_PIPELINE_NAME (p_id pipeline))]
                   else logs);
          (entry, stages_dict') =
             index_stages (p_id pipeline) 0 (p_stages pipeline)
               \<lparr>entry_label = p_label pipeline, entry_stages = [], entry_stage_order = []\<rparr>
               stages_dict
      in index_pipelines rest (AList.update (p_id pipeline) entry pipelines_dict)
           stages_dict' target' logs')"

text \<open>
  \<open>get_all\<close> is the answer of the pipelines listing call. Any exception of the
  \<^verbatim>\<open>try\<close> block is swallowed.
\<close>

definition fetch_pipelines ::
  "(exception + api_pipeline list) \<Rightarrow> (pipelines_dict \<times> stages_dict \<times> string option) \<times> log"
where
  "fetch_pipelines get_all =
     (case get_all of
        Inr results \<Rightarrow>
          (let (pipelines_dict, stages_dict, target_pipeline_id, logs) =
                 index_pipelines results [] [] None [(INFO, FetchingPipelines)];
               logs1 = logs @ [(INFO, FetchedPipelines (length pipelines_dict))];
               logs2 = (if \<not> truthy target_pipeline_id
                        then logs1 @ [(WARNING, TargetPipelineNotFound TARGET_PIPELINE_NAME
                                         (map (\<lambda>p. entry_label (snd p)) pipelines_dict))]
                        else logs1)
           in ((pipelines_dict, stages_dict, target_pipeline_id), logs2))
      | Inl e \<Rightarrow>
          (([], [], None), [(INFO, FetchingPipelines), (WARNING, CouldNotFetchPipelines e)]))"

section \<open>Transforming a deal\<close>

text \<open>
  \<^verbatim>\<open>deal.properties\<close> maps a property name to a string or to \<^verbatim>\<open>None\<close>; \<open>get\<close> is
  \<^verbatim>\<open>props.get(name)\<close>.
\<close>

type_synonym properties = "string \<rightharpoonup> string option"

record deal =
  properties :: properties

definition get :: "properties \<Rightarrow> string \<Rightarrow> string option" where
  "get props name = (case props name of None \<Rightarrow> None | Some v \<Rightarrow> v)"

text \<open>\<^verbatim>\<open>props.get(name) or ''\<close>\<close>

definition get_or_empty :: "properties \<Rightarrow> string \<Rightarrow> string" where
  "get_or_empty props name = (case get props name of None \<Rightarrow> [] | Some s \<Rightarrow> s)"

text \<open>\<^verbatim>\<open>str(props.get(name, ''))\<close>\<close>

definition get_str :: "properties \<Rightarrow> string \<Rightarrow> string" where
  "get_str props name =
     (case props name of None \<Rightarrow> [] | Some None \<Rightarrow> ''None'' | Some (Some s) \<Rightarrow> s)"

record owner_entry =
  owner_entry_name :: string
  owner_entry_email :: string

type_synonym owners_dict = "(string \<times> owner_entry) list"

record contact =
  contact_id :: string
  contact_properties :: properties

text \<open>Sequencing: an exception of the first computation ends the whole.\<close>

definition and_then :: "exception + 'a \<Rightarrow> ('a \<Rightarrow> exception + 'b) \<Rightarrow> exception + 'b" where
  "and_then m f = (case m of Inl e \<Rightarrow> Inl e | Inr x \<Rightarrow> f x)"

definition resolve_labels :: "pipelines_dict \<Rightarrow> stages_dict \<Rightarrow> string \<Rightarrow> string \<Rightarrow> string \<times> string" where
  "resolve_labels pipelines_dict stages_dict pipeline_id dealstage_id =
     (let (pipeline_label, dealstage_label) =
            (if pipeline_id \<noteq> [] then
               (case map_of pipelines_dict pipeline_id of
                  Some entry \<Rightarrow>
                    (entry_label entry,
                     case map_of (entry_stages entry) dealstage_id of
                       Some l \<Rightarrow> l
                     | None \<Rightarrow> [])
                | None \<Rightarrow> ([], []))
             else ([], []))
      in (pipeline_label,
          if dealstage_label = [] then
            (case map_of stages_dict dealstage_id of
               Some se \<Rightarrow> st_label se
             | None \<Rightarrow> dealstage_label)
          else dealstage_label))"

text \<open>\<^verbatim>\<open>(a - b).days\<close> when \<open>b\<close> was parsed, \<^verbatim>\<open>None\<close> otherwise.\<close>

definition days_from :: "datetime \<Rightarrow> datetime option \<Rightarrow> exception + int option" where
  "days_from a b =
     (case b of
        None \<Rightarrow> Inr None
      | Some dt \<Rightarrow> and_then (datetime_sub a dt) (\<lambda>td. Inr (Some (days td))))"

text \<open>
  The property \<^verbatim>\<open>hs_date_entered_<stage id>\<close>, looked up only when the deal has a stage
  id.
\<close>

definition stage_entered_str :: "properties \<Rightarrow> string \<Rightarrow> string option" where
  "stage_entered_str props dealstage_id =
     (if dealstage_id \<noteq> [] then get props (''hs_date_entered_'' @ dealstage_id) else None)"

text \<open>The days since the stage was entered; \<^verbatim>\<open>None\<close> leads to the fallback.\<close>

definition stage_days :: "'f pylib \<Rightarrow> datetime \<Rightarrow> properties \<Rightarrow> string \<Rightarrow> exception + int option" where
  "stage_days lib snapshot_timestamp props dealstage_id =
     (let entered_str = stage_entered_str props dealstage_id in
      if truthy entered_str then
        and_then (parse_timestamp_to_datetime lib entered_str)
          (\<lambda>stage_entered_date. days_from snapshot_timestamp stage_entered_date)
      else Inr None)"

text \<open>
  The columns of a snapshot row that the module computes; the columns that copy a property
  unchanged or reformat a timestamp, and the company columns with their lookup, are left
  out, as are the parse of the last-modified date, whose result is not used, and the pause
  of a tenth of a second after every tenth deal.
\<close>

record 'f deal_record =
  hs_object_id :: string
  amount :: "'f option"
  dealstage :: string
  dealstage_label :: string
  pipeline :: string
  pipeline_label :: string
  hs_deal_stage_probability :: "'f option"
  hubspot_owner_id :: string
  owner_name :: string
  owner_email :: string
  contact_count :: nat
  primary_contact_id :: string
  days_in_current_stage :: "int option"
  days_since_created :: "int option"
  days_to_close :: "int option"
  weighted_amount :: "'f option"
  is_open :: bool
  is_won :: bool
  is_lost :: bool
  deal_age_status :: string
  snapshot_timestamp :: string
  snapshot_date :: string

definition transform_deal ::
  "'f pylib \<Rightarrow> datetime \<Rightarrow> pipelines_dict \<Rightarrow> stages_dict \<Rightarrow> owners_dict \<Rightarrow> deal \<Rightarrow> contact list
     \<Rightarrow> exception + 'f deal_record"
where
  "transform_deal =
     (\<lambda>lib snapshot_timestamp pipelines_dict stages_dict owners_dict deal contacts.
      let props = properties deal;
          deal_id = get_str props ''hs_object_id'';
          pipeline_id = get_or_empty props ''pipeline'';
          dealstage_id = get_or_empty props ''dealstage'';
          (pipeline_label, dealstage_label) =
             resolve_labels pipelines_dict stages_dict pipeline_id dealstage_id;
          owner_id = get_or_empty props ''hubspot_owner_id'';
          owner = (if owner_id \<noteq> [] then map_of owners_dict owner_id else None)
      in
      and_then (parse_timestamp_to_datetime lib (get props ''createdate'')) (\<lambda>createdate_dt.
      and_then (parse_timestamp_to_datetime lib (get props ''closedate'')) (\<lambda>closedate_dt.
      and_then (days_from snapshot_timestamp createdate_dt) (\<lambda>days_since_created.
      and_then (stage_days lib snapshot_timestamp props dealstage_id) (\<lambda>stage_days.
      let days_in_current_stage =
            (case stage_days of None \<Rightarrow> days_since_created | Some d \<Rightarrow> Some d)
      in
      and_then (case closedate_dt of
                  None \<Rightarrow> Inr None
                | Some c \<Rightarrow> and_then (datetime_sub c snapshot_timestamp) (\<lambda>td. Inr (Some (days td))))
        (\<lambda>days_to_close.
      let stage_lower = lower dealstage_label;
          is_won = (contains ''won'' stage_lower \<or> contains ''closed won'' stage_lower);
          is_lost = (contains ''lost'' stage_lower \<or> contains ''closed lost'' stage_lower);
          is_open = (\<not> is_won \<and> \<not> is_lost);
          amount = safe_float lib (get props ''amount'');
          probability = safe_float lib (get props ''hs_deal_stage_probability'');
          weighted_amount =
            (case (amount, probability) of
               (Some a, Some p) \<Rightarrow> Some (float_mul lib a p)
             | _ \<Rightarrow> None)
      in Inr \<lparr>hs_object_id = deal_id,
              amount = amount,
              dealstage = dealstage_id,
              dealstage_label = dealstage_label,
              pipeline = pipeline_id,
              pipeline_label = pipeline_label,
              hs_deal_stage_probability = probability,
              hubspot_owner_id = owner_id,
              owner_name = (case owner of None \<Rightarrow> [] | Some ow \<Rightarrow> owner_entry_name ow),
              owner_email = (case owner of None \<Rightarrow> [] | Some ow \<Rightarrow> owner_entry_email ow),
              contact_count = length contacts,
              primary_contact_id = (case contacts of [] \<Rightarrow> [] | c # _ \<Rightarrow> contact_id c),
              days_in_current_stage = days_in_current_stage,
              days_since_created = days_since_created,
              days_to_close = days_to_close,
              weighted_amount = weighted_amount,
              is_open = is_open,
              is_won = is_won,
              is_lost = is_lost,
              deal_age_status = calculate_deal_age_status days_in_current_stage dealstage_label,
              snapshot_timestamp = isoformat snapshot_timestamp,
              snapshot_date = date_isoformat snapshot_timestamp\<rparr>))))))"

text \<open>The three status flags of a row, and the test that exactly one flag of a list is set.\<close>

definition status_flags :: "'f deal_record \<Rightarrow> bool \<times> bool \<times> bool" where
  "status_flags row = (is_open row, is_won row, is_lost row)"

definition exactly_one :: "bool list \<Rightarrow> bool" where
  "exactly_one bs = (length (filter id bs) = 1)"

section \<open>The HubSpot client\<close>

text \<open>
  The answers of the remote API are functions of the number of calls made so far and of the
  argument of the call. A session counts the calls and records them, with the waits, in
  order.
\<close>

record page =
  results :: "deal list"
  next_after :: "string option"

record hubspot =
  pipelines_get_all :: "exception + api_pipeline list"
  deals_get_page :: "nat \<Rightarrow> string option \<Rightarrow> exception + page"
  associations_get_page :: "nat \<Rightarrow> string \<Rightarrow> exception + string list"
  requests_get :: "nat \<Rightarrow> string \<Rightarrow> exception + nat \<times> string list"
  contacts_get_by_id :: "nat \<Rightarrow> string \<Rightarrow> exception + properties"

datatype event =
    GetDealsPage "string option"
  | GetAssociations string
  | HttpGetAssociations string
  | GetContact string
  | Sleep nat

record session =
  clock :: nat
  trace :: "event list"

definition new_session :: session where
  "new_session = \<lparr>clock = 0, trace = []\<rparr>"

definition api_call :: "event \<Rightarrow> session \<Rightarrow> session" where
  "api_call ev s = \<lparr>clock = Suc (clock s), trace = trace s @ [ev]\<rparr>"

text \<open>\<^verbatim>\<open>time.sleep(n)\<close>\<close>

definition sleep :: "nat \<Rightarrow> session \<Rightarrow> session" where
  "sleep n s = s\<lparr>trace := trace s @ [Sleep n]\<rparr>"

section \<open>Fetching the contacts of a deal\<close>

text \<open>
  The retry loop of one contact id, over the remaining values of \<^verbatim>\<open>contact_attempt\<close>.
  Leaving the equation without a recursive call is the \<^verbatim>\<open>break\<close>.
\<close>

fun contact_attempts ::
  "hubspot \<Rightarrow> string \<Rightarrow> nat \<Rightarrow> nat list \<Rightarrow> session \<Rightarrow> contact list \<Rightarrow> session \<times> contact list"
where
  "contact_attempts hs cid max_retries [] s contacts = (s, contacts)"
| "contact_attempts hs cid max_retries (contact_attempt # rest) s contacts =
     (let s1 = api_call (GetContact cid) s in
      case contacts_get_by_id hs (clock s) cid of
        Inr props \<Rightarrow> (s1, contacts @ [\<lparr>contact_id = cid, contact_properties = props\<rparr>])
      | Inl e \<Rightarrow>
          (case exc_class e of
             ContactsApiException status \<Rightarrow> (s1, contacts)
           | _ \<Rightarrow>
               if is_network_error e then
                 (if contact_attempt < max_retries - 1
                  then contact_attempts hs cid max_retries rest (sleep (2 ^ contact_attempt) s1) contacts
                  else contact_attempts hs cid max_retries rest s1 contacts)
               else if is_connection_message (exc_str e) then
                 (if contact_attempt < max_retries - 1
                  then contact_attempts hs cid max_retries rest (sleep (2 ^ contact_attempt) s1) contacts
                  else contact_attempts hs cid max_retries rest s1 contacts)
               else (s1, contacts)))"

text \<open>The loop over the contact ids.\<close>

fun fetch_each ::
  "hubspot \<Rightarrow> nat \<Rightarrow> string list \<Rightarrow> session \<Rightarrow> contact list \<Rightarrow> session \<times> contact list"
where
  "fetch_each hs max_retries [] s contacts = (s, contacts)"
| "fetch_each hs max_retries (cid # rest) s contacts =
     (case contact_attempts hs cid max_retries [0..<max_retries] s contacts of
        (s', contacts') \<Rightarrow> fetch_each hs max_retries rest s' contacts')"

text \<open>
  The listing of the associated ids: the client's call and, on an \<open>AttributeError\<close>, the
  direct HTTP request. The result is the new value of \<^verbatim>\<open>contact_ids\<close>, or the exception
  that reaches the outer handlers.
\<close>

definition list_contact_ids ::
  "hubspot \<Rightarrow> string \<Rightarrow> session \<Rightarrow> string list \<Rightarrow> session \<times> (exception + string list)"
where
  "list_contact_ids hs deal_id s contact_ids =
     (let s1 = api_call (GetAssociations deal_id) s in
      case associations_get_page hs (clock s) deal_id of
        Inr ids \<Rightarrow> (s1, Inr (if ids \<noteq> [] then ids else contact_ids))
      | Inl e \<Rightarrow>
          if exc_class e = AttributeError then
            (let s2 = api_call (HttpGetAssociations deal_id) s1 in
             case requests_get hs (clock s1) deal_id of
               Inr (status_code, ids) \<Rightarrow>
                 (s2, Inr (if status_code = 200 then take 10 ids else contact_ids))
             | Inl e2 \<Rightarrow> (s2, Inl e2))
          else (s1, Inl e))"

text \<open>The outer retry loop, over the remaining values of \<^verbatim>\<open>attempt\<close>.\<close>

fun association_attempts ::
  "hubspot \<Rightarrow> string \<Rightarrow> nat \<Rightarrow> nat list \<Rightarrow> session \<Rightarrow> string list \<Rightarrow> contact list
     \<Rightarrow> session \<times> (exception + contact list)"
where
  "association_attempts hs deal_id max_retries [] s contact_ids contacts = (s, Inr contacts)"
| "association_attempts hs deal_id max_retries (attempt # rest) s contact_ids contacts =
     (case list_contact_ids hs deal_id s contact_ids of
        (s1, Inr contact_ids') \<Rightarrow>
          if contact_ids' = [] then (s1, Inr [])
          else (case fetch_each hs max_retries contact_ids' s1 contacts of
                  (s2, contacts') \<Rightarrow> (s2, Inr contacts'))
      | (s1, Inl e) \<Rightarrow>
          if is_network_error e then
            (if attempt < max_retries - 1
             then association_attempts hs deal_id max_retries rest (sleep (2 ^ attempt) s1)
                    contact_ids contacts
             else association_attempts hs deal_id max_retries rest s1 contact_ids contacts)
          else if contains ''403'' (exc_str e) \<or> contains ''Forbidden'' (exc_str e) then
            (s1, Inr contacts)
          else if is_connection_message (exc_str e) then
            (if attempt < max_retries - 1
             then association_attempts hs deal_id max_retries rest (sleep (2 ^ attempt) s1)
                    contact_ids contacts
             else association_attempts hs deal_id max_retries rest s1 contact_ids contacts)
          else (s1, Inr contacts))"

definition fetch_associated_contacts ::
  "hubspot \<Rightarrow> string \<Rightarrow> nat \<Rightarrow> session \<Rightarrow> session \<times> (exception + contact list)"
where
  "fetch_associated_contacts hs deal_id max_retries s =
     association_attempts hs deal_id max_retries [0..<max_retries] s [] []"

section \<open>Fetching the deals\<close>

definition MAX_PAGE_RETRIES :: nat where
  "MAX_PAGE_RETRIES = 5"

text \<open>The client-side pipeline filter of one page.\<close>

definition filter_page :: "string option \<Rightarrow> deal list \<Rightarrow> deal list" where
  "filter_page target_pipeline_id deals =
     (if truthy target_pipeline_id
      then filter (\<lambda>d. get (properties d) ''pipeline'' = target_pipeline_id) deals
      else deals)"

text \<open>
  The two nested \<^verbatim>\<open>while\<close> loops. Each unit of fuel is one test of the inner loop's
  condition; \<^const>\<open>None\<close> means that the loops are still running when the fuel is spent.
  A page that was read resets \<^verbatim>\<open>retry_count\<close> for the next one; so does leaving the inner
  loop with the condition false, after which the same page is requested again.
\<close>

fun fetch_loop ::
  "hubspot \<Rightarrow> string option \<Rightarrow> nat \<Rightarrow> session \<Rightarrow> string option \<Rightarrow> deal list \<Rightarrow> nat
     \<Rightarrow> (session \<times> (exception + deal list)) option"
where
  "fetch_loop hs target_pipeline_id 0 s after all_deals retry_count = None"
| "fetch_loop hs target_pipeline_id (Suc fuel) s after all_deals retry_count =
     (if retry_count < MAX_PAGE_RETRIES then
        (let s1 = api_call (GetDealsPage after) s in
         case deals_get_page hs (clock s) after of
           Inr response \<Rightarrow>
             (let all_deals' = all_deals @ filter_page target_pipeline_id (results response) in
              case next_after response of
                Some a \<Rightarrow> fetch_loop hs target_pipeline_id fuel s1 (Some a) all_deals' 0
              | None \<Rightarrow> Some (s1, Inr all_deals'))
         | Inl e \<Rightarrow>
             (let retry_count' = retry_count + 1 in
              case exc_class e of
                DealsApiException status \<Rightarrow>
                  if status = 429 then
                    fetch_loop hs target_pipeline_id fuel
                      (sleep (min 60 (10 * 2 ^ retry_count')) s1) after all_deals retry_count'
                  else if retry_count' \<ge> MAX_PAGE_RETRIES then Some (s1, Inl e)
                  else fetch_loop hs target_pipeline_id fuel (sleep 5 s1) after all_deals retry_count'
              | _ \<Rightarrow>
                  if retry_count' \<ge> MAX_PAGE_RETRIES then Some (s1, Inl e)
                  else fetch_loop hs target_pipeline_id fuel (sleep 5 s1) after all_deals retry_count'))
      else fetch_loop hs target_pipeline_id fuel s after all_deals 0)"

definition fetch_all_deals ::
  "hubspot \<Rightarrow> string option \<Rightarrow> nat \<Rightarrow> session \<Rightarrow> (session \<times> (exception + deal list)) option"
where
  "fetch_all_deals hs target_pipeline_id fuel s =
     fetch_loop hs target_pipeline_id fuel s None [] 0"

text \<open>
  An API serves a list of pages from the call number \<open>n\<close> and the cursor \<open>after\<close> when it
  answers each request with the next page of the list, every page but the last names the
  cursor of the following request, and the last page names none.
\<close>

fun serves :: "hubspot \<Rightarrow> nat \<Rightarrow> string option \<Rightarrow> page list \<Rightarrow> bool" where
  "serves hs n after [] = False"
| "serves hs n after [p] = (deals_get_page hs n after = Inr p \<and> next_after p = None)"
| "serves hs n after (p # q # ps) =
     (deals_get_page hs n after = Inr p
      \<and> (case next_after p of
            None \<Rightarrow> False
          | Some a \<Rightarrow> serves hs (Suc n) (Some a) (q # ps)))"

section \<open>Transforming all deals\<close>

text \<open>
  The loop of \<^verbatim>\<open>transform_deals\<close>: the contacts of each deal are fetched, with three
  attempts, before its row is built; an exception ends the loop.
\<close>

fun transform_loop ::
  "hubspot \<Rightarrow> 'f pylib \<Rightarrow> datetime \<Rightarrow> pipelines_dict \<Rightarrow> stages_dict \<Rightarrow> owners_dict
     \<Rightarrow> deal list \<Rightarrow> session \<Rightarrow> 'f deal_record list
     \<Rightarrow> session \<times> (exception + 'f deal_record list)"
where
  "transform_loop hs lib now pipelines_dict stages_dict owners_dict [] s records = (s, Inr records)"
| "transform_loop hs lib now pipelines_dict stages_dict owners_dict (deal # rest) s records =
     (case fetch_associated_contacts hs (get_str (properties deal) ''hs_object_id'') 3 s of
        (s1, Inl e) \<Rightarrow> (s1, Inl e)
      | (s1, Inr contacts) \<Rightarrow>
          (case transform_deal lib now pipelines_dict stages_dict owners_dict deal contacts of
             Inl e \<Rightarrow> (s1, Inl e)
           | Inr record \<Rightarrow>
               transform_loop hs lib now pipelines_dict stages_dict owners_dict rest s1
                 (records @ [record])))"

text \<open>
  The frame is built from the records. A frame of no records has no column, and the
  conversion of its column \<^verbatim>\<open>hs_object_id\<close> raises a \<open>KeyError\<close>.
\<close>

definition transform_deals ::
  "hubspot \<Rightarrow> 'f pylib \<Rightarrow> datetime \<Rightarrow> pipelines_dict \<Rightarrow> stages_dict \<Rightarrow> owners_dict
     \<Rightarrow> deal list \<Rightarrow> session \<Rightarrow> session \<times> (exception + 'f deal_record list)"
where
  "transform_deals hs lib now pipelines_dict stages_dict owners_dict deals s =
     (case transform_loop hs lib now pipelines_dict stages_dict owners_dict deals s [] of
        (s1, Inl e) \<Rightarrow> (s1, Inl e)
      | (s1, Inr records) \<Rightarrow>
          if records = [] then (s1, raise KeyError ''hs_object_id'')
          else (s1, Inr records))"

section \<open>Loading a snapshot\<close>

text \<open>
  The destination table is absent or holds a list of rows. Each warehouse operation can
  fail with an exception given by \<open>faults\<close>.
\<close>

datatype bq_op = CreateTable | DeleteRows | LoadRows

type_synonym 'f table = "'f deal_record list option"

definition ensure_table_exists ::
  "(bq_op \<Rightarrow> exception option) \<Rightarrow> 'f table \<Rightarrow> exception + 'f deal_record list"
where
  "ensure_table_exists faults tbl =
     (case tbl of
        Some rows \<Rightarrow> Inr rows
      | None \<Rightarrow> (case faults CreateTable of Some e \<Rightarrow> Inl e | None \<Rightarrow> Inr []))"

text \<open>
  \<^verbatim>\<open>DELETE FROM table WHERE snapshot_date = '<date>'\<close>
\<close>

definition delete_snapshot :: "string \<Rightarrow> 'f deal_record list \<Rightarrow> 'f deal_record list" where
  "delete_snapshot date rows = filter (\<lambda>r. snapshot_date r \<noteq> date) rows"

text \<open>
  A frame built from rows always has the column \<^verbatim>\<open>snapshot_date\<close>; the date of the batch
  is that of its first row. The delete and the append are two steps: a failure of the
  append leaves the table without the rows of that date.
\<close>

definition load_to_bigquery ::
  "(bq_op \<Rightarrow> exception option) \<Rightarrow> 'f deal_record list \<Rightarrow> 'f table \<Rightarrow> 'f table \<times> (exception + nat)"
where
  "load_to_bigquery faults df tbl =
     (case df of
        [] \<Rightarrow> (tbl, Inr 0)
      | first # others \<Rightarrow>
          (case ensure_table_exists faults tbl of
             Inl e \<Rightarrow> (tbl, Inl e)
           | Inr rows \<Rightarrow>
               (let batch_date = snapshot_date first in
                case (if batch_date \<noteq> [] then faults DeleteRows else None) of
                  Some e \<Rightarrow> (Some rows, Inl e)
                | None \<Rightarrow>
                    (let rows1 = (if batch_date \<noteq> [] then delete_snapshot batch_date rows
                                  else rows) in
                     case faults LoadRows of
                       Some e \<Rightarrow> (Some rows1, Inl e)
                     | None \<Rightarrow> (Some (rows1 @ df), Inr (length df))))))"

text \<open>The rows of a table that carry a given snapshot date.\<close>

definition rows_of_date :: "string \<Rightarrow> 'f table \<Rightarrow> 'f deal_record list" where
  "rows_of_date date tbl =
     (case tbl of None \<Rightarrow> [] | Some rows \<Rightarrow> filter (\<lambda>r. snapshot_date r = date) rows)"

definition rows_of_other_dates :: "string \<Rightarrow> 'f table \<Rightarrow> 'f deal_record list" where
  "rows_of_other_dates date tbl =
     (case tbl of None \<Rightarrow> [] | Some rows \<Rightarrow> filter (\<lambda>r. snapshot_date r \<noteq> date) rows)"

definition no_faults :: "bq_op \<Rightarrow> exception option" where
  "no_faults op = None"

section \<open>The run\<close>

record config =
  PROJECT_ID :: "string option"
  DATASET_ID :: "string option"
  TABLE_ID :: "string option"
  HUBSPOT_ACCESS_TOKEN :: "string option"

text \<open>\<^verbatim>\<open>sep.join(names)\<close>\<close>

fun join :: "string \<Rightarrow> string list \<Rightarrow> string" where
  "join sep [] = []"
| "join sep [x] = x"
| "join sep (x # y # ys) = x @ sep @ join sep (y # ys)"

text \<open>The names of the required variables that are unset or empty, in the order of the code.\<close>

definition missing_variables :: "config \<Rightarrow> string list" where
  "missing_variables cfg =
     map fst (filter (\<lambda>required. \<not> truthy (snd required))
       [(''PROJECT_ID'', PROJECT_ID cfg),
        (''DATASET_ID'', DATASET_ID cfg),
        (''TABLE_ID'', TABLE_ID cfg),
        (''HUBSPOT_ACCESS_TOKEN'', HUBSPOT_ACCESS_TOKEN cfg)])"

definition validate_environment :: "config \<Rightarrow> exception + unit" where
  "validate_environment cfg =
     (let missing = missing_variables cfg in
      if missing \<noteq> []
      then raise ValueError
             (''Missing required environment variables: '' @ join '', '' missing)
      else Inr ())"

text \<open>
  The dictionary a run returns. A key that a kind of result does not have is
  \<^const>\<open>None\<close>. The two sums over the open deals are floating-point aggregates and are left
  out, as is the elapsed time.
\<close>

datatype result_message =
    NoDealsFound string
  | CompletedFor string
  | ErrorText string

record etl_result =
  status :: string
  message :: result_message
  deals_extracted :: "nat option"
  rows_loaded :: "nat option"
  meetings_extracted :: "nat option"
  meetings_loaded :: "nat option"
  open_deals :: "nat option"
  pipelines_fetched :: "nat option"
  owners_fetched :: "nat option"

definition no_deals_result :: etl_result where
  "no_deals_result =
     \<lparr>status = ''success'', message = NoDealsFound TARGET_PIPELINE_NAME,
      deals_extracted = Some 0, rows_loaded = Some 0,
      meetings_extracted = None, meetings_loaded = None, open_deals = None,
      pipelines_fetched = None, owners_fetched = None\<rparr>"

definition error_result :: "exception \<Rightarrow> etl_result" where
  "error_result e =
     \<lparr>status = ''error'', message = ErrorText (exc_str e),
      deals_extracted = None, rows_loaded = None,
      meetings_extracted = None, meetings_loaded = None, open_deals = None,
      pipelines_fetched = None, owners_fetched = None\<rparr>"

text \<open>
  What a run meets: the configuration, the library, the HubSpot API, the warehouse faults,
  the start time, the owners that \<^verbatim>\<open>fetch_owners\<close> returns (it swallows its exceptions),
  and the outcome of the meetings part (meetings extracted and loaded, or its exception).
\<close>

record 'f world =
  w_config :: config
  w_lib :: "'f pylib"
  w_hubspot :: hubspot
  w_faults :: "bq_op \<Rightarrow> exception option"
  w_start_time :: datetime
  w_owners :: owners_dict
  w_meetings :: "exception + nat \<times> nat"

text \<open>The run from the fetched reference data on.\<close>

definition run_with_reference_data ::
  "'f world \<Rightarrow> pipelines_dict \<times> stages_dict \<times> string option \<Rightarrow> nat \<Rightarrow> 'f table
     \<Rightarrow> (etl_result \<times> 'f table) option"
where
  "run_with_reference_data w reference fuel tbl =
     (case reference of (pipelines_dict, stages_dict, target_pipeline_id) \<Rightarrow>
      case fetch_all_deals (w_hubspot w) target_pipeline_id fuel new_session of
        None \<Rightarrow> None
      | Some (s, Inl e) \<Rightarrow> Some (error_result e, tbl)
      | Some (s, Inr deals) \<Rightarrow>
          if deals = [] then Some (no_deals_result, tbl)
          else
            (case transform_deals (w_hubspot w) (w_lib w) (w_start_time w)
                    pipelines_dict stages_dict (w_owners w) deals s of
               (s1, Inl e) \<Rightarrow> Some (error_result e, tbl)
             | (s1, Inr df) \<Rightarrow>
                 (case load_to_bigquery (w_faults w) df tbl of
                    (tbl1, Inl e) \<Rightarrow> Some (error_result e, tbl1)
                  | (tbl1, Inr loaded) \<Rightarrow>
                      (case w_meetings w of
                         Inl e \<Rightarrow> Some (error_result e, tbl1)
                       | Inr (m_extracted, m_loaded) \<Rightarrow>
                           Some (\<lparr>status = ''success'',
                                  message = CompletedFor TARGET_PIPELINE_NAME,
                                  deals_extracted = Some (length deals),
                                  rows_loaded = Some loaded,
                                  meetings_extracted = Some m_extracted,
                                  meetings_loaded = Some m_loaded,
                                  open_deals = Some (length (filter is_open df)),
                                  pipelines_fetched = Some (length pipelines_dict),
                                  owners_fetched = Some (length (w_owners w))\<rparr>,
                                 tbl1)))))"

definition hubspot_to_bigquery_etl ::
  "'f world \<Rightarrow> nat \<Rightarrow> 'f table \<Rightarrow> (etl_result \<times> 'f table) option"
where
  "hubspot_to_bigquery_etl w fuel tbl =
     (case validate_environment (w_config w) of
        Inl e \<Rightarrow> Some (error_result e, tbl)
      | Inr ok \<Rightarrow>
          run_with_reference_data w (fst (fetch_pipelines (pipelines_get_all (w_hubspot w))))
            fuel tbl)"

text \<open>
  A run has loaded every deal of a list when its result is the completed one and counts
  that many deals and rows, the rows of the snapshot date in the table are the rows of the
  deals, one for each deal and in their order, and the rows of other dates are as before.
\<close>

definition loaded_every_deal ::
  "'f world \<Rightarrow> pipelines_dict \<Rightarrow> stages_dict \<Rightarrow> deal list \<Rightarrow> 'f table \<Rightarrow> etl_result \<Rightarrow> 'f table
     \<Rightarrow> bool"
where
  "loaded_every_deal w pd sd deals tbl res tbl' =
     (status res = ''success''
      \<and> message res = CompletedFor TARGET_PIPELINE_NAME
      \<and> deals_extracted res = Some (length deals)
      \<and> rows_loaded res = Some (length deals)
      \<and> list_all2
           (\<lambda>deal row. \<exists>contacts.
              transform_deal (w_lib w) (w_start_time w) pd sd (w_owners w) deal contacts = Inr row)
           deals (rows_of_date (date_isoformat (w_start_time w)) tbl')
      \<and> rows_of_other_dates (date_isoformat (w_start_time w)) tbl'
          = rows_of_other_dates (date_isoformat (w_start_time w)) tbl)"

section \<open>A concrete library, snapshot and deals\<close>

text \<open>
  A small library that parses three timestamps and reads digit strings as numbers, a
  snapshot instant at noon of 1 February 2024, one pipeline with two stages and a deal in
  either stage. They instantiate the theorems below.
\<close>

definition example_lib :: "int pylib" where
  "example_lib =
     \<lparr>strptime = (\<lambda>s fmt.
          if (s = ''2024-01-15'' \<and> fmt = ''%Y-%m-%d'')
             \<or> (s = ''2024-01-15T00:00:00'' \<and> fmt = ''%Y-%m-%dT%H:%M:%S'')
          then Inr \<lparr>year = 2024, month = 1, day = 15, hour = 0, minute = 0, second = 0,
                    microsecond = 0, tzinfo = None\<rparr>
          else raise ValueError ''time data does not match format''),
      fromtimestamp = (\<lambda>ms tz.
          if ms = 1704067200000
          then Inr \<lparr>year = 2024, month = 1, day = 1, hour = 0, minute = 0, second = 0,
                    microsecond = 0, tzinfo = Some tz\<rparr>
          else raise OverflowError ''timestamp out of range''),
      fromisoformat = (\<lambda>s.
          if s = ''2024-01-15T00:00:00+00:00''
          then Inr \<lparr>year = 2024, month = 1, day = 15, hour = 0, minute = 0, second = 0,
                    microsecond = 0, tzinfo = Some UTC\<rparr>
          else if s = ''2024-01-01T00:00:00+00:00''
          then Inr \<lparr>year = 2024, month = 1, day = 1, hour = 0, minute = 0, second = 0,
                    microsecond = 0, tzinfo = Some UTC\<rparr>
          else raise ValueError ''Invalid isoformat string''),
      float_of = (\<lambda>s.
          if isdigit s then Inr (int_of_digits s)
          else raise ValueError ''could not convert string to float''),
      float_mul = (\<lambda>a b. a * b)\<rparr>"

definition example_snapshot :: datetime where
  "example_snapshot =
     \<lparr>year = 2024, month = 2, day = 1, hour = 12, minute = 0, second = 0,
      microsecond = 0, tzinfo = Some UTC\<rparr>"

definition example_pipelines :: pipelines_dict where
  "example_pipelines =
     [(''p1'', \<lparr>entry_label = ''3PL New Business'',
               entry_stages = [(''s1'', ''Closed Lost - Won Back''), (''s2'', ''Demo'')],
               entry_stage_order = [(''s1'', 0), (''s2'', 1)]\<rparr>)]"

definition example_deal :: "string \<Rightarrow> deal" where
  "example_deal stage =
     \<lparr>properties = map_of
        [(''hs_object_id'', Some ''101''),
         (''pipeline'', Some ''p1''),
         (''dealstage'', Some stage),
         (''amount'', Some ''1000''),
         (''hs_deal_stage_probability'', Some ''2''),
         (''createdate'', Some ''1704067200000''),
         (''hs_date_entered_s2'', Some ''2024-01-15T00:00:00Z'')]\<rparr>"

definition example_row :: "string \<Rightarrow> int deal_record" where
  "example_row stage =
     \<lparr>hs_object_id = ''101'', amount = Some 1000, dealstage = stage,
      dealstage_label = (if stage = ''s1'' then ''Closed Lost - Won Back'' else ''Demo''),
      pipeline = ''p1'', pipeline_label = ''3PL New Business'',
      hs_deal_stage_probability = Some 2, hubspot_owner_id = [],
      owner_name = [], owner_email = [], contact_count = 0,
      primary_contact_id = [],
      days_in_current_stage = (if stage = ''s1'' then Some 31 else Some 17),
      days_since_created = Some 31, days_to_close = None,
      weighted_amount = Some 2000,
      is_open = (stage \<noteq> ''s1''), is_won = (stage = ''s1''), is_lost = (stage = ''s1''),
      deal_age_status = (if stage = ''s1'' then ''Yellow'' else ''Green''),
      snapshot_timestamp = ''2024-02-01T12:00:00+00:00'',
      snapshot_date = ''2024-02-01''\<rparr>"

definition example_table :: "int deal_record list option" where
  "example_table =
     Some [example_row ''s1'',
           (example_row ''s2'')\<lparr>snapshot_date := ''2024-01-31''\<rparr>]"

definition rate_limit_error :: exception where
  "rate_limit_error = \<lparr>exc_class = DealsApiException 429, exc_str = ''(429) Too Many Requests''\<rparr>"

definition server_error :: exception where
  "server_error = \<lparr>exc_class = DealsApiException 500, exc_str = ''(500) Internal Server Error''\<rparr>"

text \<open>A HubSpot API that answers every request for a page of deals with the same exception.\<close>

definition failing_hubspot :: "exception \<Rightarrow> hubspot" where
  "failing_hubspot e =
     \<lparr>pipelines_get_all = Inr [],
      deals_get_page = (\<lambda>n after. Inl e),
      associations_get_page = (\<lambda>n deal_id. Inr []),
      requests_get = (\<lambda>n deal_id. Inr (200, [])),
      contacts_get_by_id = (\<lambda>n cid. Inr Map.empty)\<rparr>"

text \<open>One round of five rate-limited attempts at the page \<open>after\<close>.\<close>

definition rate_limited_round :: "string option \<Rightarrow> session \<Rightarrow> session" where
  "rate_limited_round after s =
     \<lparr>clock = clock s + 5,
      trace = trace s @
        [GetDealsPage after, Sleep 20, GetDealsPage after, Sleep 40, GetDealsPage after, Sleep 60,
         GetDealsPage after, Sleep 60, GetDealsPage after, Sleep 60]\<rparr>"

text \<open>No recorded wait is longer than 60 seconds.\<close>

definition waits_capped :: "session \<Rightarrow> bool" where
  "waits_capped s = list_all (\<lambda>ev. case ev of Sleep n \<Rightarrow> n \<le> 60 | _ \<Rightarrow> True) (trace s)"

text \<open>The session after three failed attempts at one contact, with the two waits between.\<close>

definition three_attempts :: "string \<Rightarrow> session \<Rightarrow> session" where
  "three_attempts cid s =
     \<lparr>clock = Suc (Suc (Suc (clock s))),
      trace = trace s @ [GetContact cid, Sleep 1, GetContact cid, Sleep 2, GetContact cid]\<rparr>"

text \<open>
  An API with three contacts on every deal: the first is forbidden, the second never
  answers, the third answers from the eighth call on.
\<close>

definition example_hubspot :: hubspot where
  "example_hubspot =
     \<lparr>pipelines_get_all = Inr [],
      deals_get_page = (\<lambda>n after. Inr \<lparr>results = [], next_after = None\<rparr>),
      associations_get_page = (\<lambda>n deal_id. Inr [''c1'', ''c2'', ''c3'']),
      requests_get = (\<lambda>n deal_id. Inr (200, [])),
      contacts_get_by_id = (\<lambda>n cid.
         if cid = ''c1'' then raise (ContactsApiException 403) ''(403) Forbidden''
         else if cid = ''c2'' then raise ConnectionError ''Connection reset by peer''
         else if n < 7 then raise TimeoutError ''timed out''
         else Inr (map_of [(''email'', Some ''ada@example.com'')]))\<rparr>"

definition example_config :: config where
  "example_config =
     \<lparr>PROJECT_ID = Some ''octup-prod'', DATASET_ID = Some ''hubspot_data'',
      TABLE_ID = Some ''deals_snapshots'', HUBSPOT_ACCESS_TOKEN = Some ''pat-na1-0000''\<rparr>"

text \<open>
  An API that answers the pipelines listing as given and serves one page with one deal of
  the pipeline \<open>p1\<close>, which has no associated contact; and the world of a run against an
  API, with a valid configuration and a warehouse that never fails.
\<close>

definition one_deal_hubspot :: "(exception + api_pipeline list) \<Rightarrow> hubspot" where
  "one_deal_hubspot listing =
     \<lparr>pipelines_get_all = listing,
      deals_get_page = (\<lambda>n after. Inr \<lparr>results = [example_deal ''s2''], next_after = None\<rparr>),
      associations_get_page = (\<lambda>n deal_id. Inr []),
      requests_get = (\<lambda>n deal_id. Inr (200, [])),
      contacts_get_by_id = (\<lambda>n cid. Inr Map.empty)\<rparr>"

definition example_world :: "hubspot \<Rightarrow> int world" where
  "example_world hs =
     \<lparr>w_config = example_config,
      w_lib = example_lib,
      w_hubspot = hs,
      w_faults = no_faults,
      w_start_time = example_snapshot,
      w_owners = [],
      w_meetings = Inr (0, 0)\<rparr>"

definition example_loaded_row :: "string \<Rightarrow> int deal_record" where
  "example_loaded_row stage_label =
     (example_row ''s2'')\<lparr>dealstage_label := stage_label, pipeline_label := []\<rparr>"

definition completed_result :: "nat \<Rightarrow> etl_result" where
  "completed_result pipelines =
     \<lparr>status = ''success'', message = CompletedFor TARGET_PIPELINE_NAME,
      deals_extracted = Some 1, rows_loaded = Some 1,
      meetings_extracted = Some 0, meetings_loaded = Some 0,
      open_deals = Some 1, pipelines_fetched = Some pipelines,
      owners_fetched = Some 0\<rparr>"

definition other_pipelines :: "api_pipeline list" where
  "other_pipelines =
     [\<lparr>p_id = ''p7'', p_label = ''Partnerships'',
       p_stages = [\<lparr>s_id = ''s2'', s_label = ''Demo''\<rparr>]\<rparr>]"

definition listing_error :: exception where
  "listing_error = \<lparr>exc_class = OtherException, exc_str = ''(401) Unauthorized''\<rparr>"

text \<open>The two dictionaries built from the pipeline "Partnerships".\<close>

definition other_pipelines_dict :: pipelines_dict where
  "other_pipelines_dict =
     [(''p7'', \<lparr>entry_label = ''Partnerships'', entry_stages = [(''s2'', ''Demo'')],
                entry_stage_order = [(''s2'', 0)]\<rparr>)]"

definition other_stages_dict :: stages_dict where
  "other_stages_dict = [(''s2'', \<lparr>st_label = ''Demo'', st_pipeline_id = ''p7'', st_order = 0\<rparr>)]"

section \<open>Properties of the string functions\<close>

lemmas string_eval = lower_def lower_char_def ascii_uppercase_def ascii_lowercase_def any_in_def
  EARLY_KEYWORDS_def MID_KEYWORDS_def LATE_KEYWORDS_def

lemma startswith_iff: "startswith s p \<longleftrightarrow> (\<exists>ys. s = p @ ys)"
  by (induction s p rule: startswith.induct) auto

lemma contains_iff: "contains sub s \<longleftrightarrow> (\<exists>xs ys. s = xs @ sub @ ys)"
proof (induction s)
  case Nil
  then show ?case by auto
next
  case (Cons c cs)
  show ?case
  proof
    assume "contains sub (c # cs)"
    then consider "startswith (c # cs) sub" | "contains sub cs" by auto
    then show "\<exists>xs ys. c # cs = xs @ sub @ ys"
    proof cases
      case 1
      then obtain ys where "c # cs = sub @ ys" by (auto simp: startswith_iff)
      then have "c # cs = [] @ sub @ ys" by simp
      then show ?thesis by blast
    next
      case 2
      then obtain xs ys where "cs = xs @ sub @ ys" using Cons.IH by blast
      then have "c # cs = (c # xs) @ sub @ ys" by simp
      then show ?thesis by blast
    qed
  next
    assume "\<exists>xs ys. c # cs = xs @ sub @ ys"
    then obtain xs ys where eq: "c # cs = xs @ sub @ ys" by blast
    show "contains sub (c # cs)"
    proof (cases xs)
      case Nil
      with eq have "startswith (c # cs) sub" by (auto simp: startswith_iff)
      then show ?thesis by simp
    next
      case (Cons x xs')
      with eq have "cs = xs' @ sub @ ys" by simp
      then have "contains sub cs" using Cons.IH by blast
      then show ?thesis by simp
    qed
  qed
qed

lemma contains_trans: "contains a b \<Longrightarrow> contains b c \<Longrightarrow> contains a c"
proof -
  assume "contains a b" "contains b c"
  then obtain xs ys us vs where "b = xs @ a @ ys" "c = us @ b @ vs"
    by (auto simp: contains_iff)
  then have "c = (us @ xs) @ a @ (ys @ vs)" by simp
  then show ?thesis unfolding contains_iff by blast
qed

lemma contains_closed_won: "contains ''closed won'' s \<Longrightarrow> contains ''won'' s"
  by (rule contains_trans[of _ "''closed won''"]) simp_all

lemma contains_closed_lost: "contains ''closed lost'' s \<Longrightarrow> contains ''lost'' s"
  by (rule contains_trans[of _ "''closed lost''"]) simp_all

section \<open>The age status\<close>

text \<open>
  Claim C4, amended. For a known number of days the classifier follows the documented
  (Green, Yellow) bounds in the early, mid, late and unknown categories, with each bound
  inclusive. In the stalled or delayed category it has no Green tier: up to 14 days is
  Yellow and anything longer is Red. For a label of the mid category, 30 days is Green,
  31 and 45 are Yellow and 46 is Red.
\<close>

theorem age_status_boundaries:
  "calculate_deal_age_status (Some d) label =
     (if stage_category label = StalledDelayed
      then (if d \<le> 14 then ''Yellow'' else ''Red'')
      else documented_age_status d label)
   \<and> (stage_category label = Mid \<longrightarrow>
        calculate_deal_age_status (Some 30) label = ''Green''
      \<and> calculate_deal_age_status (Some 31) label = ''Yellow''
      \<and> calculate_deal_age_status (Some 45) label = ''Yellow''
      \<and> calculate_deal_age_status (Some 46) label = ''Red'')"
  by (simp add: calculate_deal_age_status_def stage_category_def documented_age_status_def
      documented_boundaries_def Let_def)

theorem age_status_boundaries_witness:
  "stage_category ''Technical Evaluation'' = Mid
   \<and> calculate_deal_age_status (Some 30) ''Technical Evaluation'' = ''Green''
   \<and> calculate_deal_age_status (Some 31) ''Technical Evaluation'' = ''Yellow''
   \<and> calculate_deal_age_status (Some 45) ''Technical Evaluation'' = ''Yellow''
   \<and> calculate_deal_age_status (Some 46) ''Technical Evaluation'' = ''Red''"
proof -
  have mid: "stage_category ''Technical Evaluation'' = Mid"
    by (simp add: stage_category_def string_eval)
  with age_status_boundaries[of 0 "''Technical Evaluation''"] show ?thesis by simp
qed

text \<open>
  Claim C4 as stated fails in the stalled or delayed category: the documented pair 14 and
  infinity gives Green at 10 days and Yellow at 20, the code gives Yellow and Red.
\<close>

theorem age_status_stalled_counterexample:
  "calculate_deal_age_status (Some 10) ''Stalled'' = ''Yellow''
   \<and> documented_age_status 10 ''Stalled'' = ''Green''
   \<and> calculate_deal_age_status (Some 20) ''Stalled'' = ''Red''
   \<and> documented_age_status 20 ''Stalled'' = ''Yellow''"
  by (simp add: calculate_deal_age_status_def documented_age_status_def documented_boundaries_def
      stage_category_def string_eval)

section \<open>The transformed row\<close>

lemmas example_eval = example_lib_def example_snapshot_def example_pipelines_def example_deal_def
  transform_deal_def and_then_def resolve_labels_def get_def get_or_empty_def get_str_def
  parse_timestamp_to_datetime_def convert_hubspot_timestamp_def convert_body_def truthy_def
  isdigit_def digit_chars_def int_of_digits_def digit_value_def
  days_from_def stage_days_def stage_entered_str_def datetime_sub_def mk_timedelta_def toordinal_def
  days_before_year_def days_before_month_def DAYS_BEFORE_MONTH_def is_leap_def
  isoformat_def date_isoformat_def zero_padded_def safe_float_def raise_def TIMESTAMP_FORMATS_def
  calculate_deal_age_status_def

lemma example_transform_s1:
  "transform_deal example_lib example_snapshot example_pipelines [] [] (example_deal ''s1'') []
     = Inr (example_row ''s1'')"
  by (simp add: example_eval example_row_def string_eval Let_def upt_conv_Cons)

lemma example_transform_s2:
  "transform_deal example_lib example_snapshot example_pipelines [] [] (example_deal ''s2'') []
     = Inr (example_row ''s2'')"
  by (simp add: example_eval example_row_def string_eval Let_def upt_conv_Cons)

lemma transform_deal_Inr:
  assumes "transform_deal lib now pd sd od deal contacts = Inr row"
  shows "\<exists>created closed entered.
      parse_timestamp_to_datetime lib (get (properties deal) ''createdate'') = Inr created
    \<and> parse_timestamp_to_datetime lib (get (properties deal) ''closedate'') = Inr closed
    \<and> days_from now created = Inr (days_since_created row)
    \<and> stage_days lib now (properties deal) (get_or_empty (properties deal) ''dealstage'') = Inr entered
    \<and> days_in_current_stage row = (case entered of None \<Rightarrow> days_since_created row | Some d \<Rightarrow> Some d)"
  using assms
  unfolding transform_deal_def and_then_def Let_def
  by (auto split: sum.splits prod.splits cong: option.case_cong)

lemma transform_deal_columns:
  assumes "transform_deal lib now pd sd od deal contacts = Inr row"
  shows "dealstage row = get_or_empty (properties deal) ''dealstage''"
    and "pipeline row = get_or_empty (properties deal) ''pipeline''"
    and "pipeline_label row = fst (resolve_labels pd sd (pipeline row) (dealstage row))"
    and "dealstage_label row = snd (resolve_labels pd sd (pipeline row) (dealstage row))"
    and "is_won row = (contains ''won'' (lower (dealstage_label row)) \<or> contains ''closed won'' (lower (dealstage_label row)))"
    and "is_lost row = (contains ''lost'' (lower (dealstage_label row)) \<or> contains ''closed lost'' (lower (dealstage_label row)))"
    and "is_open row = (\<not> is_won row \<and> \<not> is_lost row)"
    and "amount row = safe_float lib (get (properties deal) ''amount'')"
    and "hs_deal_stage_probability row = safe_float lib (get (properties deal) ''hs_deal_stage_probability'')"
    and "deal_age_status row = calculate_deal_age_status (days_in_current_stage row) (dealstage_label row)"
    and "snapshot_date row = date_isoformat now"
  using assms
  unfolding transform_deal_def and_then_def Let_def
  by (auto split: sum.splits prod.splits)

lemma transform_deal_weighted:
  assumes "transform_deal lib now pd sd od deal contacts = Inr row"
  shows "weighted_amount row =
           (case (amount row, hs_deal_stage_probability row) of
              (Some a, Some p) \<Rightarrow> Some (float_mul lib a p)
            | _ \<Rightarrow> None)"
  using assms
  unfolding transform_deal_def and_then_def Let_def
  by (auto split: sum.splits prod.splits cong: option.case_cong)

subsection \<open>Status flags\<close>

text \<open>
  Claim C1, amended. In every transformed row \<open>is_won\<close> and \<open>is_lost\<close> are the
  case-insensitive substring tests for "won" and "lost" on the resolved stage label, and
  \<open>is_open\<close> is the negation of both. Exactly one of the three flags is set unless the
  label contains both words; an empty label gives an open deal.
\<close>

theorem status_flags_from_label:
  assumes "transform_deal lib now pd sd od deal contacts = Inr row"
  shows "is_won row = contains ''won'' (lower (dealstage_label row))
       \<and> is_lost row = contains ''lost'' (lower (dealstage_label row))
       \<and> is_open row = (\<not> is_won row \<and> \<not> is_lost row)
       \<and> (exactly_one [is_open row, is_won row, is_lost row] \<longleftrightarrow> \<not> (is_won row \<and> is_lost row))
       \<and> (dealstage_label row = [] \<longrightarrow> is_open row \<and> \<not> is_won row \<and> \<not> is_lost row)"
proof -
  note cols = transform_deal_columns[OF assms]
  have won: "is_won row = contains ''won'' (lower (dealstage_label row))"
    using cols(5) contains_closed_won by blast
  have lost: "is_lost row = contains ''lost'' (lower (dealstage_label row))"
    using cols(6) contains_closed_lost by blast
  have opn: "is_open row = (\<not> is_won row \<and> \<not> is_lost row)" by (rule cols(7))
  have one: "exactly_one [is_open row, is_won row, is_lost row] \<longleftrightarrow> \<not> (is_won row \<and> is_lost row)"
    using opn by (auto simp: exactly_one_def)
  have empty: "dealstage_label row = [] \<longrightarrow> is_open row \<and> \<not> is_won row \<and> \<not> is_lost row"
    using won lost opn by (simp add: lower_def)
  from won lost opn one empty show ?thesis by blast
qed

text \<open>The amended claim C1 at the deal in the stage "Demo".\<close>

theorem status_flags_from_label_witness:
  "transform_deal example_lib example_snapshot example_pipelines [] [] (example_deal ''s2'') []
     = Inr (example_row ''s2'')
   \<and> exactly_one [is_open (example_row ''s2''), is_won (example_row ''s2''), is_lost (example_row ''s2'')]
   \<and> is_open (example_row ''s2'')"
  using status_flags_from_label[OF example_transform_s2] example_transform_s2
  by (simp add: example_row_def)

text \<open>
  Claim C1 as stated fails for the stage label "Closed Lost - Won Back": the row is both
  won and lost.
\<close>

theorem status_flags_counterexample:
  "map_sum id status_flags
     (transform_deal example_lib example_snapshot example_pipelines [] [] (example_deal ''s1'') [])
     = Inr (False, True, True)
   \<and> \<not> exactly_one [False, True, True]"
  by (simp add: example_transform_s1 example_row_def status_flags_def exactly_one_def)

subsection \<open>Weighted amount\<close>

text \<open>
  Claim C3. The amount and the probability of a row are the fail-soft coercions of the two
  properties; a coercion is null exactly when the property is missing, empty or rejected
  by \<^verbatim>\<open>float\<close>; the weighted amount is null when either is null and is their product
  otherwise.
\<close>

theorem weighted_amount_rule:
  assumes "transform_deal lib now pd sd od deal contacts = Inr row"
  shows "amount row = safe_float lib (get (properties deal) ''amount'')
       \<and> hs_deal_stage_probability row = safe_float lib (get (properties deal) ''hs_deal_stage_probability'')
       \<and> (safe_float lib v = None \<longleftrightarrow>
            v = None \<or> v = Some [] \<or> (\<exists>s e. v = Some s \<and> float_of lib s = Inl e))
       \<and> (amount row = None \<or> hs_deal_stage_probability row = None \<longrightarrow> weighted_amount row = None)
       \<and> (\<forall>a p. amount row = Some a \<and> hs_deal_stage_probability row = Some p
              \<longrightarrow> weighted_amount row = Some (float_mul lib a p))"
proof -
  note cols = transform_deal_columns[OF assms]
  note w = transform_deal_weighted[OF assms]
  have sf: "safe_float lib v = None \<longleftrightarrow>
            v = None \<or> v = Some [] \<or> (\<exists>s e. v = Some s \<and> float_of lib s = Inl e)"
    by (auto simp: safe_float_def split: option.splits sum.splits)
  have none: "amount row = None \<or> hs_deal_stage_probability row = None \<longrightarrow> weighted_amount row = None"
    using w by (auto split: option.splits)
  have some: "\<forall>a p. amount row = Some a \<and> hs_deal_stage_probability row = Some p
              \<longrightarrow> weighted_amount row = Some (float_mul lib a p)"
    using w by auto
  from cols(8) cols(9) sf none some show ?thesis by blast
qed

text \<open>Claim C3 at the deal in the stage "Demo": amount 1000, probability 2.\<close>

theorem weighted_amount_rule_witness:
  "transform_deal example_lib example_snapshot example_pipelines [] [] (example_deal ''s2'') []
     = Inr (example_row ''s2'')
   \<and> amount (example_row ''s2'') = Some 1000
   \<and> hs_deal_stage_probability (example_row ''s2'') = Some 2
   \<and> weighted_amount (example_row ''s2'') = Some (float_mul example_lib 1000 2)"
  using weighted_amount_rule[OF example_transform_s2] example_transform_s2
  by (simp add: example_row_def)

subsection \<open>Days in the current stage\<close>

lemma days_mk_timedelta:
  "days (mk_timedelta d s us) = ((d * 86400 + s) * 1000000 + us) div 86400000000"
proof -
  have "((d * 86400 + s) * 1000000 + us) div 86400000000
        = (((d * 86400 + s) * 1000000 + us) div 1000000) div 86400"
    by (simp add: div_mult2_eq)
  also have "((d * 86400 + s) * 1000000 + us) div 1000000 = d * 86400 + (s + us div 1000000)"
    by simp
  also have "(d * 86400 + (s + us div 1000000)) div 86400 = d + (s + us div 1000000) div 86400"
    by simp
  finally show ?thesis by (simp add: mk_timedelta_def Let_def)
qed

lemma datetime_sub_days:
  assumes "datetime_sub a b = Inr td"
  shows "days td = (to_microseconds a - to_microseconds b) div US_PER_DAY"
proof -
  from assms have td: "td = mk_timedelta
             (toordinal a - toordinal b)
             ((int (second a) + int (minute a) * 60 + int (hour a) * 3600)
                - (int (second b) + int (minute b) * 60 + int (hour b) * 3600))
             (int (microsecond a) - int (microsecond b))"
    by (auto simp: datetime_sub_def raise_def split: if_splits)
  show ?thesis
    unfolding td days_mk_timedelta to_microseconds_def US_PER_DAY_def
    by (simp add: algebra_simps)
qed

text \<open>
  Claim C5. When the entered-stage property of the deal's stage is absent, empty or does
  not parse, \<open>days_in_current_stage\<close> is \<open>days_since_created\<close>; when it parses, it is
  the number of whole days (rounded down) from the entered-stage instant to the snapshot.
\<close>

theorem stage_duration_fallback:
  assumes "transform_deal lib now pd sd od deal contacts = Inr row"
  shows "(\<not> truthy (stage_entered_str (properties deal) (dealstage row))
          \<or> parse_timestamp_to_datetime lib (stage_entered_str (properties deal) (dealstage row)) = Inr None
          \<longrightarrow> days_in_current_stage row = days_since_created row)
       \<and> (\<forall>entered.
            parse_timestamp_to_datetime lib (stage_entered_str (properties deal) (dealstage row))
              = Inr (Some entered)
            \<longrightarrow> days_in_current_stage row
                  = Some ((to_microseconds now - to_microseconds entered) div US_PER_DAY))"
proof -
  from transform_deal_Inr[OF assms] obtain sdays where
    sd: "stage_days lib now (properties deal) (get_or_empty (properties deal) ''dealstage'') = Inr sdays"
    and cur: "days_in_current_stage row = (case sdays of None \<Rightarrow> days_since_created row | Some d \<Rightarrow> Some d)"
    by blast
  have ds: "dealstage row = get_or_empty (properties deal) ''dealstage''"
    by (rule transform_deal_columns(1)[OF assms])
  let ?str = "stage_entered_str (properties deal) (dealstage row)"
  have fallback: "\<not> truthy ?str \<or> parse_timestamp_to_datetime lib ?str = Inr None
      \<longrightarrow> days_in_current_stage row = days_since_created row"
  proof
    assume "\<not> truthy ?str \<or> parse_timestamp_to_datetime lib ?str = Inr None"
    then have "sdays = None"
      using sd unfolding stage_days_def ds[symmetric] Let_def
      by (auto simp: and_then_def days_from_def split: if_splits)
    with cur show "days_in_current_stage row = days_since_created row" by simp
  qed
  have entered: "\<forall>entered. parse_timestamp_to_datetime lib ?str = Inr (Some entered)
      \<longrightarrow> days_in_current_stage row
            = Some ((to_microseconds now - to_microseconds entered) div US_PER_DAY)"
  proof (intro allI impI)
    fix entered
    assume p: "parse_timestamp_to_datetime lib ?str = Inr (Some entered)"
    then have t: "truthy ?str"
      by (auto simp: parse_timestamp_to_datetime_def split: if_splits)
    from sd p t obtain td where sub: "datetime_sub now entered = Inr td" and s: "sdays = Some (days td)"
      unfolding stage_days_def ds[symmetric] Let_def
      by (auto simp: and_then_def days_from_def split: sum.splits if_splits)
    from cur s datetime_sub_days[OF sub] show "days_in_current_stage row
            = Some ((to_microseconds now - to_microseconds entered) div US_PER_DAY)" by simp
  qed
  from fallback entered show ?thesis by blast
qed

text \<open>
  Claim C5 at the two deals: the stage "Demo" was entered 17.5 days before the snapshot,
  the other stage has no entered-stage property.
\<close>

theorem stage_duration_fallback_witness:
  "transform_deal example_lib example_snapshot example_pipelines [] [] (example_deal ''s2'') []
     = Inr (example_row ''s2'')
   \<and> parse_timestamp_to_datetime example_lib
        (stage_entered_str (properties (example_deal ''s2'')) (dealstage (example_row ''s2'')))
       = Inr (Some \<lparr>year = 2024, month = 1, day = 15, hour = 0, minute = 0, second = 0,
                    microsecond = 0, tzinfo = Some UTC\<rparr>)
   \<and> days_in_current_stage (example_row ''s2'') = Some 17
   \<and> \<not> truthy (stage_entered_str (properties (example_deal ''s1'')) (dealstage (example_row ''s1'')))
   \<and> days_in_current_stage (example_row ''s1'') = days_since_created (example_row ''s1'')"
proof -
  have p: "parse_timestamp_to_datetime example_lib
        (stage_entered_str (properties (example_deal ''s2'')) (dealstage (example_row ''s2'')))
       = Inr (Some \<lparr>year = 2024, month = 1, day = 15, hour = 0, minute = 0, second = 0,
                    microsecond = 0, tzinfo = Some UTC\<rparr>)"
    by (simp add: example_eval example_row_def string_eval Let_def upt_conv_Cons)
  have n: "\<not> truthy (stage_entered_str (properties (example_deal ''s1'')) (dealstage (example_row ''s1'')))"
    by (simp add: example_eval example_row_def)
  from stage_duration_fallback[OF example_transform_s2] p
       stage_duration_fallback[OF example_transform_s1] n example_transform_s2
  show ?thesis
    by (simp add: example_row_def)
qed

section \<open>The timestamp normaliser\<close>

lemma try_formats_first:
  "try_formats lib s fmts =
     (case dropWhile is_value_error
             (map (\<lambda>fmt. strptime lib (cleaned s) (replace ''Z'' [] fmt)) fmts) of
        [] \<Rightarrow> Inr None
      | Inr dt # rest \<Rightarrow> Inr (Some (isoformat (dt\<lparr>tzinfo := Some UTC\<rparr>)))
      | Inl e # rest \<Rightarrow> Inl e)"
  by (induction fmts) (auto simp: is_value_error_def cleaned_def Let_def split: sum.splits)

lemma isoformat_utc_suffix:
  "tzinfo dt = Some UTC \<Longrightarrow> endswith (isoformat dt) ''+00:00''"
  unfolding endswith_def startswith_iff isoformat_def by simp

lemma try_formats_utc:
  "try_formats lib s fmts = Inr (Some r) \<Longrightarrow> endswith r ''+00:00''"
proof (induction fmts)
  case Nil
  then show ?case by simp
next
  case (Cons fmt fmts)
  then show ?case
    by (auto simp: Let_def isoformat_utc_suffix split: sum.splits if_splits)
qed

lemma swallow_first:
  "(case (case attempts of
            [] \<Rightarrow> Inr None
          | Inr dt # rest \<Rightarrow> Inr (Some (f dt))
          | Inl e # rest \<Rightarrow> Inl e) of
      Inl e \<Rightarrow> Inr None
    | Inr r \<Rightarrow> Inr r)
   = Inr (case attempts of Inr dt # rest \<Rightarrow> Some (f dt) | _ \<Rightarrow> None)"
  by (simp split: list.split sum.split)

text \<open>
  Claim C6. For a library whose \<^verbatim>\<open>fromtimestamp\<close> returns the zone it is given, the
  normaliser never raises; it returns null on a missing or empty input; a string of digits
  is read as epoch milliseconds; any other string is decided by the first format that does
  not raise a \<open>ValueError\<close> (null when there is none, or when the string has neither a
  "T" nor a "-"); and every non-null result ends with the UTC offset.
\<close>

theorem timestamp_normalizer:
  assumes tz: "\<forall>ms dt. fromtimestamp lib ms UTC = Inr dt \<longrightarrow> tzinfo dt = Some UTC"
  shows "(\<exists>r. convert_hubspot_timestamp lib v = Inr r)
       \<and> (\<not> truthy v \<longrightarrow> convert_hubspot_timestamp lib v = Inr None)
       \<and> (isdigit s \<longrightarrow> convert_hubspot_timestamp lib (Some s) =
             Inr (case fromtimestamp lib (int_of_digits s) UTC of
                    Inr dt \<Rightarrow> Some (isoformat dt)
                  | Inl e \<Rightarrow> None))
       \<and> (s \<noteq> [] \<and> \<not> isdigit s \<longrightarrow> convert_hubspot_timestamp lib (Some s) =
             Inr (if CHR ''T'' \<in> set s \<or> CHR ''-'' \<in> set s
                  then first_parse (parse_attempts lib s) else None))
       \<and> (\<forall>r. convert_hubspot_timestamp lib v = Inr (Some r) \<longrightarrow> endswith r ''+00:00'')"
proof -
  have total: "\<exists>r. convert_hubspot_timestamp lib v = Inr r"
    by (auto simp: convert_hubspot_timestamp_def split: option.splits sum.splits)
  have empty: "\<not> truthy v \<longrightarrow> convert_hubspot_timestamp lib v = Inr None"
    by (auto simp: convert_hubspot_timestamp_def truthy_def split: option.splits)
  have digits: "isdigit s \<longrightarrow> convert_hubspot_timestamp lib (Some s) =
             Inr (case fromtimestamp lib (int_of_digits s) UTC of
                    Inr dt \<Rightarrow> Some (isoformat dt)
                  | Inl e \<Rightarrow> None)"
    by (auto simp: convert_hubspot_timestamp_def convert_body_def isdigit_def split: sum.splits)
  have formats: "s \<noteq> [] \<and> \<not> isdigit s \<longrightarrow> convert_hubspot_timestamp lib (Some s) =
             Inr (if CHR ''T'' \<in> set s \<or> CHR ''-'' \<in> set s
                  then first_parse (parse_attempts lib s) else None)"
  proof (intro impI, elim conjE)
    assume ne: "s \<noteq> []" and nd: "\<not> isdigit s"
    show "convert_hubspot_timestamp lib (Some s) =
             Inr (if CHR ''T'' \<in> set s \<or> CHR ''-'' \<in> set s
                  then first_parse (parse_attempts lib s) else None)"
    proof (cases "CHR ''T'' \<in> set s \<or> CHR ''-'' \<in> set s")
      case True
      with nd have cb: "convert_body lib s = try_formats lib s TIMESTAMP_FORMATS"
        by (simp add: convert_body_def)
      show ?thesis
        using ne True
        by (simp add: convert_hubspot_timestamp_def cb try_formats_first first_parse_def
              parse_attempts_def swallow_first)
    next
      case False
      with nd have cb: "convert_body lib s = Inr None"
        by (simp add: convert_body_def)
      show ?thesis
        using ne False by (simp add: convert_hubspot_timestamp_def cb)
    qed
  qed
  have utc: "\<forall>r. convert_hubspot_timestamp lib v = Inr (Some r) \<longrightarrow> endswith r ''+00:00''"
  proof (intro allI impI)
    fix r assume r: "convert_hubspot_timestamp lib v = Inr (Some r)"
    then obtain x where v: "v = Some x" and x: "x \<noteq> []" and body: "convert_body lib x = Inr (Some r)"
      by (auto simp: convert_hubspot_timestamp_def split: option.splits if_splits sum.splits)
    show "endswith r ''+00:00''"
    proof (cases "isdigit x")
      case True
      with body obtain dt where "fromtimestamp lib (int_of_digits x) UTC = Inr dt" "r = isoformat dt"
        by (auto simp: convert_body_def split: sum.splits)
      with tz show ?thesis by (simp add: isoformat_utc_suffix)
    next
      case False
      with body have "try_formats lib x TIMESTAMP_FORMATS = Inr (Some r)"
        by (auto simp: convert_body_def split: if_splits)
      then show ?thesis by (rule try_formats_utc)
    qed
  qed
  from total empty digits formats utc show ?thesis by blast
qed

text \<open>Claim C6 at the example library: an epoch string, an ISO string and garbage.\<close>

theorem timestamp_normalizer_witness:
  "convert_hubspot_timestamp example_lib (Some ''1704067200000'') = Inr (Some ''2024-01-01T00:00:00+00:00'')
   \<and> convert_hubspot_timestamp example_lib (Some ''2024-01-15T00:00:00Z'') = Inr (Some ''2024-01-15T00:00:00+00:00'')
   \<and> convert_hubspot_timestamp example_lib (Some ''garbage'') = Inr None
   \<and> endswith ''2024-01-15T00:00:00+00:00'' ''+00:00''"
proof -
  have tz: "\<forall>ms dt. fromtimestamp example_lib ms UTC = Inr dt \<longrightarrow> tzinfo dt = Some UTC"
    by (auto simp: example_lib_def raise_def split: if_splits)
  have a: "convert_hubspot_timestamp example_lib (Some ''1704067200000'') = Inr (Some ''2024-01-01T00:00:00+00:00'')"
    by (simp add: example_eval Let_def upt_conv_Cons)
  have b: "convert_hubspot_timestamp example_lib (Some ''2024-01-15T00:00:00Z'') = Inr (Some ''2024-01-15T00:00:00+00:00'')"
    by (simp add: example_eval Let_def upt_conv_Cons)
  have c: "convert_hubspot_timestamp example_lib (Some ''garbage'') = Inr None"
    by (simp add: example_eval Let_def)
  from timestamp_normalizer[OF tz, of "Some ''2024-01-15T00:00:00Z''" "''2024-01-15T00:00:00Z''"] b
  have "endswith ''2024-01-15T00:00:00+00:00'' ''+00:00''" by simp
  with a b c show ?thesis by blast
qed

section \<open>The snapshot loader\<close>

lemma load_no_faults:
  assumes "df \<noteq> []" and "\<forall>r \<in> set df. snapshot_date r = date" and "date \<noteq> []"
  shows "load_to_bigquery no_faults df tbl
           = (Some (rows_of_other_dates date tbl @ df), Inr (length df))"
proof -
  from assms(1) obtain first others where df: "df = first # others" by (cases df) auto
  with assms(2) have d: "snapshot_date first = date" by simp
  show ?thesis
    unfolding df load_to_bigquery_def
    by (simp add: d assms(3) no_faults_def ensure_table_exists_def delete_snapshot_def
          rows_of_other_dates_def Let_def split: option.split)
qed

lemma rows_of_date_loaded:
  assumes "\<forall>r \<in> set df. snapshot_date r = date"
  shows "rows_of_date date (Some (rows_of_other_dates date tbl @ df)) = df"
    and "rows_of_other_dates date (Some (rows_of_other_dates date tbl @ df))
           = rows_of_other_dates date tbl"
  using assms
  by (auto simp: rows_of_date_def rows_of_other_dates_def filter_id_conv filter_empty_conv
        split: option.split)

text \<open>
  Claim C2. Let a non-empty batch carry one non-empty snapshot date and let no warehouse
  operation fail. Loading the batch twice reports its row count both times, leaves the
  table as the first load left it, and the rows of that date in the table are exactly the
  batch, each once; the rows of other dates are untouched.
\<close>

theorem idempotent_reload:
  assumes "df \<noteq> []" and "\<forall>r \<in> set df. snapshot_date r = date" and "date \<noteq> []"
  shows "snd (load_to_bigquery no_faults df tbl) = Inr (length df)
       \<and> snd (load_to_bigquery no_faults df (fst (load_to_bigquery no_faults df tbl)))
           = Inr (length df)
       \<and> fst (load_to_bigquery no_faults df (fst (load_to_bigquery no_faults df tbl)))
           = fst (load_to_bigquery no_faults df tbl)
       \<and> rows_of_date date
            (fst (load_to_bigquery no_faults df (fst (load_to_bigquery no_faults df tbl)))) = df
       \<and> rows_of_other_dates date
            (fst (load_to_bigquery no_faults df (fst (load_to_bigquery no_faults df tbl))))
           = rows_of_other_dates date tbl"
proof -
  note l = load_no_faults[OF assms]
  note r = rows_of_date_loaded[OF assms(2)]
  show ?thesis
    by (simp add: l r)
qed

text \<open>A frame built by the transformer carries the ISO date of the snapshot, ten characters.\<close>

lemma zero_padded_length: "length (zero_padded w n) = w"
  by (simp add: zero_padded_def)

lemma date_isoformat_nonempty: "date_isoformat dt \<noteq> []"
proof -
  have "length (date_isoformat dt) = 10"
    by (simp add: date_isoformat_def zero_padded_length)
  then show ?thesis by auto
qed

text \<open>
  Claim C2 at a table that already holds a row of 1 February 2024 and a row of the day
  before, reloaded twice with the two rows of 1 February.
\<close>

theorem idempotent_reload_witness:
  "fst (load_to_bigquery no_faults [example_row ''s1'', example_row ''s2'']
          (fst (load_to_bigquery no_faults [example_row ''s1'', example_row ''s2''] example_table)))
     = Some [(example_row ''s2'')\<lparr>snapshot_date := ''2024-01-31''\<rparr>,
             example_row ''s1'', example_row ''s2'']
   \<and> rows_of_date ''2024-02-01''
        (fst (load_to_bigquery no_faults [example_row ''s1'', example_row ''s2'']
           (fst (load_to_bigquery no_faults [example_row ''s1'', example_row ''s2''] example_table))))
     = [example_row ''s1'', example_row ''s2'']"
proof -
  have a: "[example_row ''s1'', example_row ''s2''] \<noteq> []" by simp
  have b: "\<forall>r \<in> set [example_row ''s1'', example_row ''s2'']. snapshot_date r = ''2024-02-01''"
    by (simp add: example_row_def)
  have c: "''2024-02-01'' \<noteq> []" by simp
  have d: "rows_of_other_dates ''2024-02-01'' example_table
             = [(example_row ''s2'')\<lparr>snapshot_date := ''2024-01-31''\<rparr>]"
    by (simp add: rows_of_other_dates_def example_table_def example_row_def)
  have e: "fst (load_to_bigquery no_faults [example_row ''s1'', example_row ''s2''] example_table)
             = Some [(example_row ''s2'')\<lparr>snapshot_date := ''2024-01-31''\<rparr>,
                     example_row ''s1'', example_row ''s2'']"
    by (simp add: load_no_faults[OF a b c] d)
  from idempotent_reload[OF a b c, of example_table] e show ?thesis
    by (simp add: rows_of_date_def example_row_def)
qed

section \<open>The paginated fetcher\<close>

lemma rate_limited_loop_None:
  "fetch_loop (failing_hubspot rate_limit_error) target fuel s after all_deals retry_count = None"
proof (induction fuel arbitrary: s retry_count)
  case 0
  then show ?case by simp
next
  case (Suc fuel)
  then show ?case
    by (simp add: failing_hubspot_def rate_limit_error_def Let_def)
qed

lemma rate_limited_round_step:
  "fetch_loop (failing_hubspot rate_limit_error) target (Suc (Suc (Suc (Suc (Suc (Suc fuel)))))) s after all_deals 0
     = fetch_loop (failing_hubspot rate_limit_error) target fuel (rate_limited_round after s) after all_deals 0"
proof -
  have c: "clock s + 5 = Suc (Suc (Suc (Suc (Suc (clock s)))))" by simp
  show ?thesis
    by (simp add: failing_hubspot_def rate_limit_error_def Let_def MAX_PAGE_RETRIES_def
          rate_limited_round_def api_call_def sleep_def c)
qed

text \<open>
  Claim C7 at an API that answers every page request with status 429. The fetch neither
  raises nor returns, whatever the fuel: after five attempts, with waits of 20, 40, 60, 60
  and 60 seconds, the retry count is back at zero and the same page is requested again.
\<close>

theorem rate_limit_exhaustion_never_raises:
  "fetch_all_deals (failing_hubspot rate_limit_error) target fuel s = None
   \<and> fetch_loop (failing_hubspot rate_limit_error) target (6 + fuel) s after all_deals 0
       = fetch_loop (failing_hubspot rate_limit_error) target fuel (rate_limited_round after s)
           after all_deals 0"
proof -
  have "6 + fuel = Suc (Suc (Suc (Suc (Suc (Suc fuel)))))" by simp
  then show ?thesis
    by (simp only: fetch_all_deals_def rate_limited_loop_None rate_limited_round_step simp_thms)
qed

text \<open>Five failures of any other kind on one page end the fetch with the last exception.\<close>

lemma other_error_terminal:
  assumes "exc_class e \<noteq> DealsApiException 429"
  shows "fetch_all_deals (failing_hubspot e) target (5 + fuel) s
     = Some (\<lparr>clock = clock s + 5,
              trace = trace s @
                [GetDealsPage None, Sleep 5, GetDealsPage None, Sleep 5, GetDealsPage None, Sleep 5,
                 GetDealsPage None, Sleep 5, GetDealsPage None]\<rparr>, Inl e)"
proof -
  have f: "5 + fuel = Suc (Suc (Suc (Suc (Suc fuel))))" by simp
  have c: "clock s + 5 = Suc (Suc (Suc (Suc (Suc (clock s)))))" by simp
  show ?thesis
    unfolding f fetch_all_deals_def using assms
    by (cases "exc_class e")
       (simp_all add: failing_hubspot_def Let_def MAX_PAGE_RETRIES_def api_call_def sleep_def c)
qed

lemma server_error_terminal:
  "fetch_all_deals (failing_hubspot server_error) target 5 new_session
     = Some (\<lparr>clock = 5,
              trace = [GetDealsPage None, Sleep 5, GetDealsPage None, Sleep 5, GetDealsPage None,
                       Sleep 5, GetDealsPage None, Sleep 5, GetDealsPage None]\<rparr>,
             Inl server_error)"
  using other_error_terminal[of server_error target 0 new_session]
  by (simp add: server_error_def new_session_def)

lemma waits_capped_step:
  "waits_capped s \<Longrightarrow> waits_capped (api_call (GetDealsPage after) s)"
  "waits_capped s \<Longrightarrow> n \<le> 60 \<Longrightarrow> waits_capped (sleep n s)"
  by (simp_all add: waits_capped_def api_call_def sleep_def)

lemma fetch_loop_waits_capped:
  "fetch_loop hs target fuel s after all_deals retry_count = Some (s', r) \<Longrightarrow> waits_capped s
     \<Longrightarrow> waits_capped s'"
proof (induction fuel arbitrary: s after all_deals retry_count)
  case 0
  then show ?case by simp
next
  case (Suc fuel)
  show ?case
  proof (cases "retry_count < MAX_PAGE_RETRIES")
    case False
    with Suc.prems(1) have "fetch_loop hs target fuel s after all_deals 0 = Some (s', r)" by simp
    from Suc.IH[OF this Suc.prems(2)] show ?thesis .
  next
    case True
    let ?s1 = "api_call (GetDealsPage after) s"
    have c1: "waits_capped ?s1" using Suc.prems(2) by (rule waits_capped_step(1))
    have c5: "waits_capped (sleep 5 ?s1)" using c1 by (rule waits_capped_step(2)) simp
    have c60: "waits_capped (sleep (min 60 (10 * 2 ^ (retry_count + 1))) ?s1)"
      using c1 by (rule waits_capped_step(2)) simp
    show ?thesis
    proof (cases "deals_get_page hs (clock s) after")
      case (Inr response)
      show ?thesis
      proof (cases "next_after response")
        case None
        with Inr True Suc.prems(1) have "s' = ?s1" by (simp add: Let_def)
        with c1 show ?thesis by simp
      next
        case (Some a)
        with Inr True Suc.prems(1) have
          "fetch_loop hs target fuel ?s1 (Some a)
             (all_deals @ filter_page target (results response)) 0 = Some (s', r)"
          by (simp add: Let_def)
        from Suc.IH[OF this c1] show ?thesis .
      qed
    next
      case (Inl e)
      from Inl True Suc.prems(1) consider
          "s' = ?s1"
        | "fetch_loop hs target fuel (sleep 5 ?s1) after all_deals (retry_count + 1) = Some (s', r)"
        | "fetch_loop hs target fuel (sleep (min 60 (10 * 2 ^ (retry_count + 1))) ?s1) after all_deals
             (retry_count + 1) = Some (s', r)"
        by (cases "exc_class e") (auto simp: Let_def split: if_splits)
      then show ?thesis
      proof cases
        case 1
        with c1 show ?thesis by simp
      next
        case 2
        from Suc.IH[OF this c5] show ?thesis .
      next
        case 3
        from Suc.IH[OF this c60] show ?thesis .
      qed
    qed
  qed
qed

section \<open>The contacts of a deal\<close>

lemma contact_attempts_break:
  assumes "contacts_get_by_id hs (clock s) cid = Inl e" and "\<not> is_transient e"
  shows "contact_attempts hs cid max_retries (a # rest) s contacts
           = (api_call (GetContact cid) s, contacts)"
  using assms
  by (cases "exc_class e")
     (auto simp: is_transient_def is_contacts_api_exception_def Let_def)

lemma contact_attempts_permission:
  assumes "contacts_get_by_id hs (clock s) cid = Inl e"
    and "exc_class e = ContactsApiException 403"
  shows "contact_attempts hs cid max_retries (a # rest) s contacts
           = (api_call (GetContact cid) s, contacts)"
  using assms by (simp add: Let_def)

lemma contact_attempts_retry:
  assumes "contacts_get_by_id hs (clock s) cid = Inl e" and "is_transient e"
  shows "contact_attempts hs cid max_retries (a # rest) s contacts
           = contact_attempts hs cid max_retries rest
               (if a < max_retries - 1 then sleep (2 ^ a) (api_call (GetContact cid) s)
                else api_call (GetContact cid) s) contacts"
  using assms
  by (cases "exc_class e")
     (auto simp: is_transient_def is_contacts_api_exception_def Let_def)

lemma contact_attempts_success:
  assumes "contacts_get_by_id hs (clock s) cid = Inr props"
  shows "contact_attempts hs cid max_retries (a # rest) s contacts
           = (api_call (GetContact cid) s,
              contacts @ [\<lparr>contact_id = cid, contact_properties = props\<rparr>])"
  using assms by (simp add: Let_def)

lemma upt_3: "[0..<3] = [0, 1, 2]"
  by (simp add: upt_conv_Cons)

lemma three_transient_failures:
  assumes "contacts_get_by_id hs (clock s) cid = Inl e0" "is_transient e0"
    and "contacts_get_by_id hs (Suc (clock s)) cid = Inl e1" "is_transient e1"
    and "contacts_get_by_id hs (Suc (Suc (clock s))) cid = Inl e2" "is_transient e2"
  shows "contact_attempts hs cid 3 [0..<3] s contacts = (three_attempts cid s, contacts)"
proof -
  let ?s1 = "sleep (2 ^ 0) (api_call (GetContact cid) s)"
  let ?s2 = "sleep (2 ^ 1) (api_call (GetContact cid) ?s1)"
  have c1: "clock ?s1 = Suc (clock s)" by (simp add: sleep_def api_call_def)
  have c2: "clock ?s2 = Suc (Suc (clock s))" by (simp add: sleep_def api_call_def)
  have "contact_attempts hs cid 3 [0, 1, 2] s contacts
          = contact_attempts hs cid 3 [1, 2] ?s1 contacts"
    using contact_attempts_retry[OF assms(1,2), of 3 0] by simp
  also have "\<dots> = contact_attempts hs cid 3 [2] ?s2 contacts"
    using contact_attempts_retry[of hs ?s1 cid e1 3 1] assms(3,4) c1 by simp
  also have "\<dots> = contact_attempts hs cid 3 [] (api_call (GetContact cid) ?s2) contacts"
    using contact_attempts_retry[of hs ?s2 cid e2 3 2] assms(5,6) c2 by simp
  also have "\<dots> = (three_attempts cid s, contacts)"
    by (simp add: three_attempts_def sleep_def api_call_def)
  finally show ?thesis by (simp add: upt_3)
qed

lemma two_failures_then_success:
  assumes "contacts_get_by_id hs (clock s) cid = Inl e0" "is_transient e0"
    and "contacts_get_by_id hs (Suc (clock s)) cid = Inl e1" "is_transient e1"
    and "contacts_get_by_id hs (Suc (Suc (clock s))) cid = Inr props"
  shows "contact_attempts hs cid 3 [0..<3] s contacts
           = (three_attempts cid s, contacts @ [\<lparr>contact_id = cid, contact_properties = props\<rparr>])"
proof -
  let ?s1 = "sleep (2 ^ 0) (api_call (GetContact cid) s)"
  let ?s2 = "sleep (2 ^ 1) (api_call (GetContact cid) ?s1)"
  have c1: "clock ?s1 = Suc (clock s)" by (simp add: sleep_def api_call_def)
  have c2: "clock ?s2 = Suc (Suc (clock s))" by (simp add: sleep_def api_call_def)
  have "contact_attempts hs cid 3 [0, 1, 2] s contacts
          = contact_attempts hs cid 3 [1, 2] ?s1 contacts"
    using contact_attempts_retry[OF assms(1,2), of 3 0] by simp
  also have "\<dots> = contact_attempts hs cid 3 [2] ?s2 contacts"
    using contact_attempts_retry[of hs ?s1 cid e1 3 1] assms(3,4) c1 by simp
  also have "\<dots> = (api_call (GetContact cid) ?s2,
                     contacts @ [\<lparr>contact_id = cid, contact_properties = props\<rparr>])"
    using contact_attempts_success[of hs ?s2 cid props 3 2 "[]"] assms(5) c2 by simp
  also have "api_call (GetContact cid) ?s2 = three_attempts cid s"
    by (simp add: three_attempts_def sleep_def api_call_def)
  finally show ?thesis by (simp add: upt_3)
qed

lemma association_attempts_returns:
  "\<exists>cs. snd (association_attempts hs deal_id max_retries attempts s contact_ids contacts) = Inr cs"
proof (induction attempts arbitrary: s)
  case Nil
  then show ?case by simp
next
  case (Cons attempt rest)
  obtain s1 r where l: "list_contact_ids hs deal_id s contact_ids = (s1, r)"
    by (cases "list_contact_ids hs deal_id s contact_ids")
  show ?case
  proof (cases r)
    case (Inr ids)
    then show ?thesis using l by (simp split: prod.split)
  next
    case (Inl e)
    then show ?thesis using l Cons.IH by simp
  qed
qed

lemma contact_attempts_all_fail:
  assumes "\<forall>n cid. \<exists>e. contacts_get_by_id hs n cid = Inl e"
  shows "snd (contact_attempts hs cid max_retries attempts s contacts) = contacts"
proof (induction attempts arbitrary: s)
  case Nil
  then show ?case by simp
next
  case (Cons a rest)
  from assms obtain e where e: "contacts_get_by_id hs (clock s) cid = Inl e" by blast
  show ?case
  proof (cases "is_transient e")
    case True
    show ?thesis unfolding contact_attempts_retry[OF e True] by (rule Cons.IH)
  next
    case False
    show ?thesis unfolding contact_attempts_break[OF e False] by simp
  qed
qed

lemma fetch_each_all_fail:
  assumes "\<forall>n cid. \<exists>e. contacts_get_by_id hs n cid = Inl e"
  shows "snd (fetch_each hs max_retries ids s contacts) = contacts"
proof (induction ids arbitrary: s)
  case Nil
  then show ?case by simp
next
  case (Cons cid rest)
  obtain s1 cs1 where c: "contact_attempts hs cid max_retries [0..<max_retries] s contacts = (s1, cs1)"
    by (cases "contact_attempts hs cid max_retries [0..<max_retries] s contacts")
  with contact_attempts_all_fail[OF assms, of cid max_retries "[0..<max_retries]" s contacts]
  have "cs1 = contacts" by simp
  with c Cons.IH show ?case by simp
qed

lemma association_attempts_all_fail:
  assumes "\<forall>n cid. \<exists>e. contacts_get_by_id hs n cid = Inl e"
  shows "snd (association_attempts hs deal_id max_retries attempts s contact_ids []) = Inr []"
proof (induction attempts arbitrary: s)
  case Nil
  then show ?case by simp
next
  case (Cons attempt rest)
  obtain s1 r where l: "list_contact_ids hs deal_id s contact_ids = (s1, r)"
    by (cases "list_contact_ids hs deal_id s contact_ids")
  show ?case
  proof (cases r)
    case (Inr ids)
    obtain s2 cs2 where f: "fetch_each hs max_retries ids s1 [] = (s2, cs2)"
      by (cases "fetch_each hs max_retries ids s1 []")
    with fetch_each_all_fail[OF assms, of max_retries ids s1 "[]"] have "cs2 = []" by simp
    with Inr l f show ?thesis by simp
  next
    case (Inl e)
    then show ?thesis using l Cons.IH by simp
  qed
qed

lemma contact_attempts_trace:
  "set (trace s) \<subseteq> set (trace (fst (contact_attempts hs cid max_retries attempts s contacts)))"
proof (induction attempts arbitrary: s)
  case Nil
  then show ?case by simp
next
  case (Cons a rest)
  let ?s1 = "api_call (GetContact cid) s"
  have sub1: "set (trace s) \<subseteq> set (trace ?s1)" by (auto simp: api_call_def)
  show ?case
  proof (cases "contacts_get_by_id hs (clock s) cid")
    case (Inr props)
    show ?thesis unfolding contact_attempts_success[OF Inr] using sub1 by simp
  next
    case (Inl e)
    show ?thesis
    proof (cases "is_transient e")
      case False
      show ?thesis unfolding contact_attempts_break[OF Inl False] using sub1 by simp
    next
      case True
      let ?s2 = "if a < max_retries - 1 then sleep (2 ^ a) ?s1 else ?s1"
      have "set (trace s) \<subseteq> set (trace ?s2)" by (auto simp: api_call_def sleep_def)
      also have "\<dots> \<subseteq> set (trace (fst (contact_attempts hs cid max_retries rest ?s2 contacts)))"
        by (rule Cons.IH)
      finally show ?thesis unfolding contact_attempts_retry[OF Inl True] .
    qed
  qed
qed

lemma contact_attempts_called:
  "GetContact cid \<in> set (trace (fst (contact_attempts hs cid max_retries (a # rest) s contacts)))"
proof -
  let ?s1 = "api_call (GetContact cid) s"
  have in1: "GetContact cid \<in> set (trace ?s1)" by (simp add: api_call_def)
  show ?thesis
  proof (cases "contacts_get_by_id hs (clock s) cid")
    case (Inr props)
    show ?thesis unfolding contact_attempts_success[OF Inr] using in1 by simp
  next
    case (Inl e)
    show ?thesis
    proof (cases "is_transient e")
      case False
      show ?thesis unfolding contact_attempts_break[OF Inl False] using in1 by simp
    next
      case True
      let ?s2 = "if a < max_retries - 1 then sleep (2 ^ a) ?s1 else ?s1"
      have "GetContact cid \<in> set (trace ?s2)" by (simp add: api_call_def sleep_def)
      then show ?thesis
        unfolding contact_attempts_retry[OF Inl True]
        using contact_attempts_trace[of ?s2 hs cid max_retries rest contacts] by blast
    qed
  qed
qed

lemma fetch_each_trace:
  "set (trace s) \<subseteq> set (trace (fst (fetch_each hs max_retries ids s contacts)))"
proof (induction ids arbitrary: s contacts)
  case Nil
  then show ?case by simp
next
  case (Cons cid rest)
  obtain s1 cs1 where c: "contact_attempts hs cid max_retries [0..<max_retries] s contacts = (s1, cs1)"
    by (cases "contact_attempts hs cid max_retries [0..<max_retries] s contacts")
  have "set (trace s) \<subseteq> set (trace s1)"
    using contact_attempts_trace[of s hs cid max_retries "[0..<max_retries]" contacts] c by simp
  also have "\<dots> \<subseteq> set (trace (fst (fetch_each hs max_retries rest s1 cs1)))" by (rule Cons.IH)
  finally show ?case using c by simp
qed

lemma fetch_each_attempts_every_id:
  assumes "0 < max_retries" and "cid \<in> set ids"
  shows "GetContact cid \<in> set (trace (fst (fetch_each hs max_retries ids s contacts)))"
  using assms(2)
proof (induction ids arbitrary: s contacts)
  case Nil
  then show ?case by simp
next
  case (Cons c rest)
  obtain s1 cs1 where ca: "contact_attempts hs c max_retries [0..<max_retries] s contacts = (s1, cs1)"
    by (cases "contact_attempts hs c max_retries [0..<max_retries] s contacts")
  from assms(1) have u: "[0..<max_retries] = 0 # [Suc 0..<max_retries]" by (simp add: upt_conv_Cons)
  show ?case
  proof (cases "cid = c")
    case True
    have "GetContact c \<in> set (trace s1)"
      using contact_attempts_called[of c hs max_retries 0 "[Suc 0..<max_retries]" s contacts] ca u
      by simp
    then show ?thesis
      using fetch_each_trace[of s1 hs max_retries rest cs1] ca True by auto
  next
    case False
    with Cons.prems have "cid \<in> set rest" by simp
    from Cons.IH[OF this] show ?thesis using ca by simp
  qed
qed

text \<open>
  Claim C8. The contact fetch always returns a list, and the empty list when every lookup
  fails. For one contact id and three attempts: a 403 of the contacts client, like any
  failure that is not transient, ends the id after one call and no wait; three transient
  failures make three calls with waits of 1 and 2 seconds between them and add nothing;
  two transient failures and a success add the contact. Every id of the batch is looked
  up, whatever happened to the ids before it.
\<close>

theorem contact_fetch_policy:
  "(\<exists>cs. snd (fetch_associated_contacts hs deal_id max_retries s) = Inr cs)
   \<and> ((\<forall>n c. \<exists>e. contacts_get_by_id hs n c = Inl e)
        \<longrightarrow> snd (fetch_associated_contacts hs deal_id max_retries s) = Inr [])
   \<and> (\<forall>e. contacts_get_by_id hs (clock s) cid = Inl e \<and> exc_class e = ContactsApiException 403
        \<longrightarrow> contact_attempts hs cid 3 [0..<3] s contacts = (api_call (GetContact cid) s, contacts))
   \<and> (\<forall>e. contacts_get_by_id hs (clock s) cid = Inl e \<and> \<not> is_transient e
        \<longrightarrow> contact_attempts hs cid 3 [0..<3] s contacts = (api_call (GetContact cid) s, contacts))
   \<and> (\<forall>e0 e1 e2.
          contacts_get_by_id hs (clock s) cid = Inl e0 \<and> is_transient e0
        \<and> contacts_get_by_id hs (Suc (clock s)) cid = Inl e1 \<and> is_transient e1
        \<and> contacts_get_by_id hs (Suc (Suc (clock s))) cid = Inl e2 \<and> is_transient e2
        \<longrightarrow> contact_attempts hs cid 3 [0..<3] s contacts = (three_attempts cid s, contacts))
   \<and> (\<forall>e0 e1 props.
          contacts_get_by_id hs (clock s) cid = Inl e0 \<and> is_transient e0
        \<and> contacts_get_by_id hs (Suc (clock s)) cid = Inl e1 \<and> is_transient e1
        \<and> contacts_get_by_id hs (Suc (Suc (clock s))) cid = Inr props
        \<longrightarrow> contact_attempts hs cid 3 [0..<3] s contacts
              = (three_attempts cid s,
                 contacts @ [\<lparr>contact_id = cid, contact_properties = props\<rparr>]))
   \<and> (0 < max_retries \<longrightarrow>
        (\<forall>c \<in> set ids.
           GetContact c \<in> set (trace (fst (fetch_each hs max_retries ids s contacts)))))"
proof -
  have returns: "\<exists>cs. snd (fetch_associated_contacts hs deal_id max_retries s) = Inr cs"
    unfolding fetch_associated_contacts_def by (rule association_attempts_returns)
  have empty: "(\<forall>n c. \<exists>e. contacts_get_by_id hs n c = Inl e)
        \<longrightarrow> snd (fetch_associated_contacts hs deal_id max_retries s) = Inr []"
    unfolding fetch_associated_contacts_def using association_attempts_all_fail by blast
  have permission: "\<forall>e. contacts_get_by_id hs (clock s) cid = Inl e
          \<and> exc_class e = ContactsApiException 403
        \<longrightarrow> contact_attempts hs cid 3 [0..<3] s contacts = (api_call (GetContact cid) s, contacts)"
    unfolding upt_3 using contact_attempts_permission by blast
  have other: "\<forall>e. contacts_get_by_id hs (clock s) cid = Inl e \<and> \<not> is_transient e
        \<longrightarrow> contact_attempts hs cid 3 [0..<3] s contacts = (api_call (GetContact cid) s, contacts)"
    unfolding upt_3 using contact_attempts_break by blast
  have transient: "\<forall>e0 e1 e2.
          contacts_get_by_id hs (clock s) cid = Inl e0 \<and> is_transient e0
        \<and> contacts_get_by_id hs (Suc (clock s)) cid = Inl e1 \<and> is_transient e1
        \<and> contacts_get_by_id hs (Suc (Suc (clock s))) cid = Inl e2 \<and> is_transient e2
        \<longrightarrow> contact_attempts hs cid 3 [0..<3] s contacts = (three_attempts cid s, contacts)"
    using three_transient_failures by blast
  have recovered: "\<forall>e0 e1 props.
          contacts_get_by_id hs (clock s) cid = Inl e0 \<and> is_transient e0
        \<and> contacts_get_by_id hs (Suc (clock s)) cid = Inl e1 \<and> is_transient e1
        \<and> contacts_get_by_id hs (Suc (Suc (clock s))) cid = Inr props
        \<longrightarrow> contact_attempts hs cid 3 [0..<3] s contacts
              = (three_attempts cid s,
                 contacts @ [\<lparr>contact_id = cid, contact_properties = props\<rparr>])"
    using two_failures_then_success by blast
  have batch: "0 < max_retries \<longrightarrow>
        (\<forall>c \<in> set ids.
           GetContact c \<in> set (trace (fst (fetch_each hs max_retries ids s contacts))))"
    using fetch_each_attempts_every_id by blast
  from returns empty permission other transient recovered batch show ?thesis by blast
qed

lemmas example_hubspot_eval = example_hubspot_def fetch_associated_contacts_def
  list_contact_ids_def api_call_def sleep_def new_session_def raise_def is_network_error_def
  is_connection_message_def three_attempts_def is_transient_def is_contacts_api_exception_def

lemma example_fetch_contacts:
  "fetch_associated_contacts example_hubspot ''101'' 3 new_session
     = (\<lparr>clock = 8,
         trace = [GetAssociations ''101'', GetContact ''c1'',
                  GetContact ''c2'', Sleep 1, GetContact ''c2'', Sleep 2, GetContact ''c2'',
                  GetContact ''c3'', Sleep 1, GetContact ''c3'', Sleep 2, GetContact ''c3'']\<rparr>,
        Inr [\<lparr>contact_id = ''c3'',
              contact_properties = map_of [(''email'', Some ''ada@example.com'')]\<rparr>])"
  by (simp add: example_hubspot_eval string_eval Let_def upt_conv_Cons)

text \<open>
  Claim C8 at the example API: one call for the forbidden contact, three for the one that
  never answers, and the third contact is still fetched.
\<close>

theorem contact_fetch_policy_witness:
  "contact_attempts example_hubspot ''c1'' 3 [0..<3] new_session []
     = (api_call (GetContact ''c1'') new_session, [])
   \<and> contact_attempts example_hubspot ''c2'' 3 [0..<3] new_session []
     = (three_attempts ''c2'' new_session, [])
   \<and> GetContact ''c3''
       \<in> set (trace (fst (fetch_each example_hubspot 3 [''c1'', ''c2'', ''c3''] new_session [])))
   \<and> snd (fetch_associated_contacts example_hubspot ''101'' 3 new_session)
     = Inr [\<lparr>contact_id = ''c3'',
              contact_properties = map_of [(''email'', Some ''ada@example.com'')]\<rparr>]"
proof -
  note p = contact_fetch_policy[of example_hubspot "''101''" 3 new_session _ "[]"
             "[''c1'', ''c2'', ''c3'']"]
  have c1: "contacts_get_by_id example_hubspot (clock new_session) ''c1''
              = Inl \<lparr>exc_class = ContactsApiException 403, exc_str = ''(403) Forbidden''\<rparr>"
    by (simp add: example_hubspot_def raise_def)
  have c2: "\<And>n. contacts_get_by_id example_hubspot n ''c2''
              = Inl \<lparr>exc_class = ConnectionError, exc_str = ''Connection reset by peer''\<rparr>"
    by (simp add: example_hubspot_def raise_def)
  have t2: "is_transient \<lparr>exc_class = ConnectionError, exc_str = ''Connection reset by peer''\<rparr>"
    by (simp add: is_transient_def is_contacts_api_exception_def is_network_error_def)
  have a: "contact_attempts example_hubspot ''c1'' 3 [0..<3] new_session []
     = (api_call (GetContact ''c1'') new_session, [])"
    using p[of "''c1''"] c1 by simp
  have b: "contact_attempts example_hubspot ''c2'' 3 [0..<3] new_session []
     = (three_attempts ''c2'' new_session, [])"
    using p[of "''c2''"] c2 t2 by simp
  have c: "GetContact ''c3''
       \<in> set (trace (fst (fetch_each example_hubspot 3 [''c1'', ''c2'', ''c3''] new_session [])))"
    using p[of "''c1''"] by simp
  have d: "snd (fetch_associated_contacts example_hubspot ''101'' 3 new_session)
     = Inr [\<lparr>contact_id = ''c3'',
              contact_properties = map_of [(''email'', Some ''ada@example.com'')]\<rparr>]"
    by (simp add: example_fetch_contacts)
  from a b c d show ?thesis by blast
qed

section \<open>The run and its reference data\<close>

lemmas run_eval = hubspot_to_bigquery_etl_def run_with_reference_data_def validate_environment_def
  missing_variables_def
  example_world_def one_deal_hubspot_def example_config_def fetch_pipelines_def other_pipelines_def
  completed_result_def example_loaded_row_def MAX_PAGE_RETRIES_def
  fetch_all_deals_def filter_page_def transform_loop.simps transform_deals_def load_to_bigquery_def
  ensure_table_exists_def no_faults_def delete_snapshot_def TARGET_PIPELINE_NAME_def
  example_hubspot_eval

lemma index_pipelines_no_match:
  assumes "\<forall>p \<in> set ps. p_label p \<noteq> TARGET_PIPELINE_NAME"
    and "index_pipelines ps pd sd t logs = (pd', sd', t', logs')"
  shows "t' = t"
  using assms
proof (induction ps arbitrary: pd sd t logs)
  case Nil
  then show ?case by simp
next
  case (Cons p ps)
  from Cons.prems(1) have np: "p_label p \<noteq> TARGET_PIPELINE_NAME"
    and rest: "\<forall>q \<in> set ps. p_label q \<noteq> TARGET_PIPELINE_NAME" by simp_all
  obtain entry sd1 where st: "index_stages (p_id p) 0 (p_stages p)
        \<lparr>entry_label = p_label p, entry_stages = [], entry_stage_order = []\<rparr> sd = (entry, sd1)"
    by (cases "index_stages (p_id p) 0 (p_stages p)
        \<lparr>entry_label = p_label p, entry_stages = [], entry_stage_order = []\<rparr> sd")
  from Cons.prems(2) np st
  have "index_pipelines ps (AList.update (p_id p) entry pd) sd1 t logs = (pd', sd', t', logs')"
    by (simp add: Let_def)
  from Cons.IH[OF rest this] show ?case .
qed

lemma fetch_pipelines_no_match:
  assumes "\<forall>p \<in> set ps. p_label p \<noteq> TARGET_PIPELINE_NAME"
  shows "\<exists>pd sd logs. fetch_pipelines (Inr ps)
           = ((pd, sd, None),
              logs @ [(WARNING, TargetPipelineNotFound TARGET_PIPELINE_NAME
                                  (map (\<lambda>p. entry_label (snd p)) pd))])"
proof -
  obtain pd sd t logs where ip:
    "index_pipelines ps [] [] None [(INFO, FetchingPipelines)] = (pd, sd, t, logs)"
    by (cases "index_pipelines ps [] [] None [(INFO, FetchingPipelines)]") auto
  from index_pipelines_no_match[OF assms ip] have t: "t = None" .
  have "fetch_pipelines (Inr ps)
          = ((pd, sd, None),
             (logs @ [(INFO, FetchedPipelines (length pd))])
               @ [(WARNING, TargetPipelineNotFound TARGET_PIPELINE_NAME
                              (map (\<lambda>p. entry_label (snd p)) pd))])"
    by (simp add: fetch_pipelines_def ip t truthy_def Let_def)
  then show ?thesis by blast
qed

lemma fetch_pipelines_raises:
  "fetch_pipelines (Inl e)
     = (([], [], None), [(INFO, FetchingPipelines), (WARNING, CouldNotFetchPipelines e)])"
  by (simp add: fetch_pipelines_def)

lemma status_error_result: "error_result e \<noteq> no_deals_result"
  by (simp add: error_result_def no_deals_result_def)

lemma run_no_deals_iff:
  assumes "run_with_reference_data w (pd, sd, target) fuel tbl = Some (res, tbl')"
  shows "res = no_deals_result
           \<longleftrightarrow> (\<exists>s. fetch_all_deals (w_hubspot w) target fuel new_session = Some (s, Inr []))"
proof (cases "fetch_all_deals (w_hubspot w) target fuel new_session")
  case None
  with assms show ?thesis by (simp add: run_with_reference_data_def)
next
  case (Some sr)
  obtain s r where sr: "sr = (s, r)" by (cases sr)
  show ?thesis
  proof (cases r)
    case (Inl e)
    with assms Some sr show ?thesis
      by (auto simp: run_with_reference_data_def status_error_result)
  next
    case (Inr deals)
    show ?thesis
    proof (cases "deals = []")
      case True
      with assms Some sr Inr show ?thesis by (auto simp: run_with_reference_data_def)
    next
      case False
      with assms Some sr Inr have "res \<noteq> no_deals_result"
        by (auto simp: run_with_reference_data_def error_result_def no_deals_result_def
              split: prod.splits sum.splits)
      with False Some sr Inr show ?thesis by auto
    qed
  qed
qed

lemma index_stages_label:
  "entry_label (fst (index_stages pid idx stages entry sd)) = entry_label entry"
  by (induction stages arbitrary: idx entry sd) simp_all

lemma update_fresh: "k \<notin> fst ` set al \<Longrightarrow> AList.update k v al = al @ [(k, v)]"
  by (induction al) auto

lemma index_pipelines_labels:
  assumes "distinct (map fst pd @ map p_id ps)"
    and "index_pipelines ps pd sd t logs = (pd', sd', t', logs')"
  shows "map (\<lambda>p. entry_label (snd p)) pd' = map (\<lambda>p. entry_label (snd p)) pd @ map p_label ps"
  using assms
proof (induction ps arbitrary: pd sd t logs)
  case Nil
  then show ?case by simp
next
  case (Cons p ps)
  let ?e0 = "\<lparr>entry_label = p_label p, entry_stages = [], entry_stage_order = []\<rparr>"
  obtain entry sd1 where st: "index_stages (p_id p) 0 (p_stages p) ?e0 sd = (entry, sd1)"
    by (cases "index_stages (p_id p) 0 (p_stages p) ?e0 sd")
  have lab: "entry_label entry = p_label p"
    using index_stages_label[of "p_id p" 0 "p_stages p" ?e0 sd] st by simp
  from Cons.prems(1) have fresh: "p_id p \<notin> fst ` set pd" by auto
  have upd: "AList.update (p_id p) entry pd = pd @ [(p_id p, entry)]"
    by (rule update_fresh[OF fresh])
  from Cons.prems(1) have d: "distinct (map fst (pd @ [(p_id p, entry)]) @ map p_id ps)" by auto
  from Cons.prems(2) st obtain t1 logs1 where
    "index_pipelines ps (pd @ [(p_id p, entry)]) sd1 t1 logs1 = (pd', sd', t', logs')"
    by (simp add: Let_def upd)
  from Cons.IH[OF d this] lab show ?case by simp
qed

lemma fetch_pipelines_labels:
  assumes "distinct (map p_id ps)" and "fetch_pipelines (Inr ps) = ((pd, sd, t), logs)"
  shows "map (\<lambda>p. entry_label (snd p)) pd = map p_label ps"
proof -
  obtain pd0 sd0 t0 logs0 where ip:
    "index_pipelines ps [] [] None [(INFO, FetchingPipelines)] = (pd0, sd0, t0, logs0)"
    by (cases "index_pipelines ps [] [] None [(INFO, FetchingPipelines)]") auto
  with assms(2) have "pd = pd0" by (simp add: fetch_pipelines_def Let_def)
  with index_pipelines_labels[of "[]" ps "[]" None _ pd0 sd0 t0 logs0] assms(1) ip
  show ?thesis by simp
qed

lemma resolve_labels_empty: "resolve_labels [] [] pipeline_id dealstage_id = ([], [])"
  by (simp add: resolve_labels_def)

lemma transform_deal_without_reference_data:
  assumes "transform_deal lib now [] [] od deal contacts = Inr row"
  shows "pipeline_label row = [] \<and> dealstage_label row = []"
  using transform_deal_columns(3,4)[OF assms] by (simp add: resolve_labels_empty)


lemma fetch_loop_serves:
  assumes "serves hs n after pages" and "n = clock s" and "length pages \<le> fuel"
  shows "\<exists>s'. fetch_loop hs target fuel s after all_deals 0
           = Some (s', Inr (all_deals @ concat (map (\<lambda>p. filter_page target (results p)) pages)))"
  using assms
proof (induction hs n after pages arbitrary: s fuel all_deals rule: serves.induct)
  case (1 hs n after)
  then show ?case by simp
next
  case (2 hs n after p)
  from "2.prems"(3) obtain f where f: "fuel = Suc f" by (cases fuel) auto
  from "2.prems"(1,2) show ?case
    unfolding f by (simp add: MAX_PAGE_RETRIES_def Let_def)
next
  case (3 hs n after p q ps)
  from "3.prems"(3) obtain f where f: "fuel = Suc f" and len: "length (q # ps) \<le> f"
    by (cases fuel) auto
  from "3.prems"(1) obtain a where
    page: "deals_get_page hs n after = Inr p" and nxt: "next_after p = Some a"
    and rest: "serves hs (Suc n) (Some a) (q # ps)"
    by (auto split: option.splits)
  let ?s1 = "api_call (GetDealsPage after) s"
  have c: "Suc n = clock ?s1" using "3.prems"(2) by (simp add: api_call_def)
  from "3.IH"[OF nxt rest c len, of "all_deals @ filter_page target (results p)"]
  obtain s' where
    "fetch_loop hs target f ?s1 (Some a) (all_deals @ filter_page target (results p)) 0
       = Some (s', Inr ((all_deals @ filter_page target (results p))
                        @ concat (map (\<lambda>p. filter_page target (results p)) (q # ps))))"
    by blast
  then show ?case
    unfolding f using page nxt "3.prems"(2)
    by (simp add: MAX_PAGE_RETRIES_def Let_def)
qed

lemma fetch_all_deals_serves:
  assumes "serves hs 0 None pages" and "length pages \<le> fuel"
  shows "\<exists>s. fetch_all_deals hs target fuel new_session
           = Some (s, Inr (concat (map (\<lambda>p. filter_page target (results p)) pages)))"
  using fetch_loop_serves[OF assms(1) _ assms(2), of new_session target "[]"]
  by (simp add: fetch_all_deals_def new_session_def)

lemma filter_page_None: "filter_page None deals = deals"
  by (simp add: filter_page_def truthy_def)

lemma transform_deal_any_contacts:
  assumes "transform_deal lib now pd sd od deal [] = Inr row"
  shows "\<exists>row'. transform_deal lib now pd sd od deal contacts = Inr row'"
  using assms
  unfolding transform_deal_def and_then_def Let_def
  by (auto split: sum.splits prod.splits)

lemma transform_loop_rows:
  assumes "transform_loop hs lib now pd sd od deals s recs = (s', Inr df)"
  shows "\<exists>new. df = recs @ new
           \<and> list_all2 (\<lambda>deal row. \<exists>contacts. transform_deal lib now pd sd od deal contacts = Inr row)
                deals new"
  using assms
proof (induction deals arbitrary: s recs)
  case Nil
  then show ?case by simp
next
  case (Cons deal rest)
  obtain s1 cr where f:
    "fetch_associated_contacts hs (get_str (properties deal) ''hs_object_id'') 3 s = (s1, cr)"
    by (cases "fetch_associated_contacts hs (get_str (properties deal) ''hs_object_id'') 3 s")
  from Cons.prems f obtain contacts where cr: "cr = Inr contacts" by (cases cr) auto
  from Cons.prems f cr obtain row where
    row: "transform_deal lib now pd sd od deal contacts = Inr row"
    by (cases "transform_deal lib now pd sd od deal contacts") auto
  from Cons.prems f cr row have
    "transform_loop hs lib now pd sd od rest s1 (recs @ [row]) = (s', Inr df)" by simp
  from Cons.IH[OF this] obtain new where
    n: "df = (recs @ [row]) @ new"
       "list_all2 (\<lambda>deal row. \<exists>contacts. transform_deal lib now pd sd od deal contacts = Inr row)
          rest new"
    by blast
  have "df = recs @ (row # new)" using n(1) by simp
  moreover have
    "list_all2 (\<lambda>deal row. \<exists>contacts. transform_deal lib now pd sd od deal contacts = Inr row)
       (deal # rest) (row # new)"
    using n(2) row by auto
  ultimately show ?case by blast
qed

lemma transform_loop_succeeds:
  assumes "\<forall>deal \<in> set deals. \<exists>row. transform_deal lib now pd sd od deal [] = Inr row"
  shows "\<exists>s' df. transform_loop hs lib now pd sd od deals s recs = (s', Inr df)"
  using assms
proof (induction deals arbitrary: s recs)
  case Nil
  then show ?case by simp
next
  case (Cons deal rest)
  obtain s1 cr where f:
    "fetch_associated_contacts hs (get_str (properties deal) ''hs_object_id'') 3 s = (s1, cr)"
    by (cases "fetch_associated_contacts hs (get_str (properties deal) ''hs_object_id'') 3 s")
  from association_attempts_returns[of hs "get_str (properties deal) ''hs_object_id''" 3
         "[0..<3]" s "[]" "[]"] f
  obtain contacts where cr: "cr = Inr contacts"
    by (auto simp: fetch_associated_contacts_def)
  from Cons.prems obtain row0 where "transform_deal lib now pd sd od deal [] = Inr row0" by auto
  from transform_deal_any_contacts[OF this] obtain row where
    row: "transform_deal lib now pd sd od deal contacts = Inr row" by blast
  from Cons.prems have "\<forall>d \<in> set rest. \<exists>row. transform_deal lib now pd sd od d [] = Inr row"
    by simp
  from Cons.IH[OF this, of s1 "recs @ [row]"] f cr row show ?case by simp
qed

lemma transform_deals_rows:
  assumes "transform_deals hs lib now pd sd od deals s = (s', Inr df)"
  shows "list_all2 (\<lambda>deal row. \<exists>contacts. transform_deal lib now pd sd od deal contacts = Inr row)
           deals df"
proof -
  obtain s1 r where l: "transform_loop hs lib now pd sd od deals s [] = (s1, r)"
    by (cases "transform_loop hs lib now pd sd od deals s []")
  from assms l have "r = Inr df"
    by (cases r) (auto simp: transform_deals_def raise_def split: if_splits)
  with l transform_loop_rows[of hs lib now pd sd od deals s "[]" s1 df] show ?thesis by auto
qed

lemma transform_deals_succeeds:
  assumes "deals \<noteq> []"
    and "\<forall>deal \<in> set deals. \<exists>row. transform_deal lib now pd sd od deal [] = Inr row"
  shows "\<exists>s' df. transform_deals hs lib now pd sd od deals s = (s', Inr df)"
proof -
  from transform_loop_succeeds[OF assms(2), of hs s "[]"] obtain s1 df where
    l: "transform_loop hs lib now pd sd od deals s [] = (s1, Inr df)" by blast
  from transform_loop_rows[OF l] have "length df = length deals"
    by (auto dest: list_all2_lengthD)
  with assms(1) have "df \<noteq> []" by auto
  with l show ?thesis by (simp add: transform_deals_def)
qed

lemma load_result:
  assumes "load_to_bigquery faults df tbl = (tbl1, Inr n)"
    and "df \<noteq> []" and "\<forall>r \<in> set df. snapshot_date r = date" and "date \<noteq> []"
  shows "n = length df" and "rows_of_date date tbl1 = df"
    and "rows_of_other_dates date tbl1 = rows_of_other_dates date tbl"
proof -
  from assms(2) obtain first others where df: "df = first # others" by (cases df) auto
  with assms(3) have d: "snapshot_date first = date" by simp
  from assms(1) have n: "n = length df" and
    t: "tbl1 = Some (rows_of_other_dates date tbl @ df)"
    unfolding df load_to_bigquery_def
    by (auto simp: d assms(4) Let_def df ensure_table_exists_def delete_snapshot_def
          rows_of_other_dates_def split: sum.splits option.splits)
  show "n = length df" by (rule n)
  show "rows_of_date date tbl1 = df"
    unfolding t by (rule rows_of_date_loaded(1)[OF assms(3)])
  show "rows_of_other_dates date tbl1 = rows_of_other_dates date tbl"
    unfolding t by (rule rows_of_date_loaded(2)[OF assms(3)])
qed

lemma transformed_rows_dated:
  assumes "list_all2 (\<lambda>deal row. \<exists>contacts. transform_deal lib now pd sd od deal contacts = Inr row)
             deals df"
  shows "\<forall>r \<in> set df. snapshot_date r = date_isoformat now"
proof
  fix r assume "r \<in> set df"
  with assms obtain deal contacts where "transform_deal lib now pd sd od deal contacts = Inr r"
    by (auto simp: list_all2_conv_all_nth in_set_conv_nth)
  then show "snapshot_date r = date_isoformat now" by (rule transform_deal_columns(11))
qed

lemma run_completed_or_error:
  assumes "fetch_all_deals (w_hubspot w) target fuel new_session = Some (s, Inr deals)"
    and "deals \<noteq> []"
    and "run_with_reference_data w (pd, sd, target) fuel tbl = Some (res, tbl')"
  shows "(\<exists>e. res = error_result e) \<or> loaded_every_deal w pd sd deals tbl res tbl'"
proof -
  obtain s1 r where tr:
    "transform_deals (w_hubspot w) (w_lib w) (w_start_time w) pd sd (w_owners w) deals s = (s1, r)"
    by (cases "transform_deals (w_hubspot w) (w_lib w) (w_start_time w) pd sd (w_owners w) deals s")
  show ?thesis
  proof (cases r)
    case (Inl e)
    with assms tr show ?thesis by (auto simp: run_with_reference_data_def)
  next
    case (Inr df)
    note rows = transform_deals_rows[OF tr[unfolded Inr]]
    from rows have len: "length df = length deals" by (auto dest: list_all2_lengthD)
    with assms(2) have dfne: "df \<noteq> []" by auto
    note dates = transformed_rows_dated[OF rows]
    obtain tbl1 lr where ld: "load_to_bigquery (w_faults w) df tbl = (tbl1, lr)"
      by (cases "load_to_bigquery (w_faults w) df tbl")
    show ?thesis
    proof (cases lr)
      case (Inl e)
      with assms tr Inr ld show ?thesis by (auto simp: run_with_reference_data_def)
    next
      case lok: (Inr n)
      note lres = load_result[OF ld[unfolded lok] dfne dates date_isoformat_nonempty]
      show ?thesis
      proof (cases "w_meetings w")
        case (Inl e)
        with assms tr Inr ld lok show ?thesis by (auto simp: run_with_reference_data_def)
      next
        case mok: (Inr m)
        obtain mx ml where m: "m = (mx, ml)" by (cases m)
        from assms tr Inr ld lok mok m have
          res: "res = \<lparr>status = ''success'',
                        message = CompletedFor TARGET_PIPELINE_NAME,
                        deals_extracted = Some (length deals),
                        rows_loaded = Some n,
                        meetings_extracted = Some mx,
                        meetings_loaded = Some ml,
                        open_deals = Some (length (filter is_open df)),
                        pipelines_fetched = Some (length pd),
                        owners_fetched = Some (length (w_owners w))\<rparr>"
          and t: "tbl' = tbl1"
          by (auto simp: run_with_reference_data_def)
        have "loaded_every_deal w pd sd deals tbl res tbl'"
          unfolding loaded_every_deal_def t
          using rows lres len by (simp add: res)
        then show ?thesis by blast
      qed
    qed
  qed
qed

lemma run_completes:
  assumes "fetch_all_deals (w_hubspot w) target fuel new_session = Some (s, Inr deals)"
    and "deals \<noteq> []"
    and "\<forall>deal \<in> set deals. \<exists>row.
           transform_deal (w_lib w) (w_start_time w) pd sd (w_owners w) deal [] = Inr row"
    and "w_faults w = no_faults"
    and "w_meetings w = Inr m"
  shows "\<exists>res tbl'. run_with_reference_data w (pd, sd, target) fuel tbl = Some (res, tbl')
           \<and> loaded_every_deal w pd sd deals tbl res tbl'"
proof -
  from transform_deals_succeeds[OF assms(2,3), of "w_hubspot w" s] obtain s1 df where tr:
    "transform_deals (w_hubspot w) (w_lib w) (w_start_time w) pd sd (w_owners w) deals s
       = (s1, Inr df)" by blast
  note rows = transform_deals_rows[OF tr]
  from rows have len: "length df = length deals" by (auto dest: list_all2_lengthD)
  with assms(2) have dfne: "df \<noteq> []" by auto
  note dates = transformed_rows_dated[OF rows]
  have ld: "load_to_bigquery (w_faults w) df tbl
              = (Some (rows_of_other_dates (date_isoformat (w_start_time w)) tbl @ df),
                 Inr (length df))"
    unfolding assms(4) by (rule load_no_faults[OF dfne dates date_isoformat_nonempty])
  obtain mx ml where m: "m = (mx, ml)" by (cases m)
  from assms(1,2) tr ld assms(5) m obtain res tbl' where
    run: "run_with_reference_data w (pd, sd, target) fuel tbl = Some (res, tbl')"
    by (simp add: run_with_reference_data_def)
  have "\<not> (\<exists>e. res = error_result e)"
    using run assms(1,2) tr ld assms(5) m
    by (auto simp: run_with_reference_data_def error_result_def)
  with run_completed_or_error[OF assms(1,2) run] run show ?thesis by blast
qed

lemma loaded_rows_without_reference_data:
  assumes "loaded_every_deal w [] [] deals tbl res tbl'"
  shows "\<forall>r \<in> set (rows_of_date (date_isoformat (w_start_time w)) tbl').
           pipeline_label r = [] \<and> dealstage_label r = []"
proof
  fix r assume "r \<in> set (rows_of_date (date_isoformat (w_start_time w)) tbl')"
  with assms obtain deal contacts where
    "transform_deal (w_lib w) (w_start_time w) [] [] (w_owners w) deal contacts = Inr r"
    by (auto simp: loaded_every_deal_def list_all2_conv_all_nth in_set_conv_nth)
  then show "pipeline_label r = [] \<and> dealstage_label r = []"
    by (rule transform_deal_without_reference_data)
qed

lemma example_run_other_pipelines:
  "hubspot_to_bigquery_etl (example_world (one_deal_hubspot (Inr other_pipelines))) 1 None
     = Some (completed_result 1, Some [example_loaded_row ''Demo''])"
  by (simp add: run_eval example_eval example_row_def string_eval Let_def upt_conv_Cons)

lemma example_run_listing_error:
  "hubspot_to_bigquery_etl (example_world (one_deal_hubspot (Inl listing_error))) 1 None
     = Some (completed_result 0, Some [example_loaded_row []])"
  by (simp add: run_eval example_eval example_row_def string_eval Let_def upt_conv_Cons)

lemma example_validate: "validate_environment (w_config (example_world hs)) = Inr ()"
  by (simp add: validate_environment_def missing_variables_def example_world_def
        example_config_def truthy_def Let_def)

lemma other_pipelines_no_match:
  "\<forall>p \<in> set other_pipelines. p_label p \<noteq> TARGET_PIPELINE_NAME"
  by (simp add: other_pipelines_def TARGET_PIPELINE_NAME_def)


lemma example_fetch_one_deal:
  "fetch_all_deals (one_deal_hubspot listing) None 1 new_session
     = Some (api_call (GetDealsPage None) new_session, Inr [example_deal ''s2''])"
  by (simp add: one_deal_hubspot_def fetch_all_deals_def filter_page_def truthy_def
        MAX_PAGE_RETRIES_def Let_def)

lemma example_serves:
  "serves (one_deal_hubspot listing) 0 None [\<lparr>results = [example_deal ''s2''], next_after = None\<rparr>]"
  by (simp add: one_deal_hubspot_def)

lemma completed_not_error: "completed_result n \<noteq> error_result e"
  by (simp add: completed_result_def error_result_def)

text \<open>
  Claim C9, amended. Let the configuration be valid and let no listed pipeline carry the
  target name. The loader returns no target id and its last log record is a warning with
  the labels of the pipelines dictionary (the labels of the listing when the ids are
  distinct). The run continues with that reference data and fetches without a pipeline
  filter: from an API that serves its pages without failure it gets every deal of every
  page. The run returns the success-shaped result with zero deals and zero rows exactly
  when the fetch returns no deal. When the fetch returns deals, a run that ends either
  reports the exception of a later step or has loaded every fetched deal: it counts as
  many deals and rows as were fetched, and the rows of the snapshot date in the table are
  the rows of the fetched deals, one for each and in their order. It does load every deal
  when each deal transforms, no warehouse operation fails and the meetings part succeeds.
\<close>

theorem pipeline_not_found:
  assumes "validate_environment (w_config w) = Inr ok"
    and "pipelines_get_all (w_hubspot w) = Inr ps"
    and "\<forall>p \<in> set ps. p_label p \<noteq> TARGET_PIPELINE_NAME"
  shows "(\<exists>pd sd logs.
            fetch_pipelines (pipelines_get_all (w_hubspot w))
              = ((pd, sd, None),
                 logs @ [(WARNING, TargetPipelineNotFound TARGET_PIPELINE_NAME
                                     (map (\<lambda>p. entry_label (snd p)) pd))])
          \<and> (distinct (map p_id ps) \<longrightarrow> map (\<lambda>p. entry_label (snd p)) pd = map p_label ps)
          \<and> hubspot_to_bigquery_etl w fuel tbl = run_with_reference_data w (pd, sd, None) fuel tbl
          \<and> (\<forall>s deals.
                fetch_all_deals (w_hubspot w) None fuel new_session = Some (s, Inr deals)
                  \<and> deals \<noteq> []
                \<longrightarrow> (\<forall>res tbl'. hubspot_to_bigquery_etl w fuel tbl = Some (res, tbl')
                       \<longrightarrow> (\<exists>e. res = error_result e)
                           \<or> loaded_every_deal w pd sd deals tbl res tbl')
                    \<and> ((\<forall>deal \<in> set deals. \<exists>row.
                           transform_deal (w_lib w) (w_start_time w) pd sd (w_owners w) deal []
                             = Inr row)
                         \<and> w_faults w = no_faults \<and> (\<exists>m. w_meetings w = Inr m)
                       \<longrightarrow> (\<exists>res tbl'. hubspot_to_bigquery_etl w fuel tbl = Some (res, tbl')
                              \<and> loaded_every_deal w pd sd deals tbl res tbl'))))
       \<and> ((\<exists>s. fetch_all_deals (w_hubspot w) None fuel new_session = Some (s, Inr []))
            \<longrightarrow> hubspot_to_bigquery_etl w fuel tbl = Some (no_deals_result, tbl))
       \<and> (\<forall>res tbl'. hubspot_to_bigquery_etl w fuel tbl = Some (res, tbl')
            \<longrightarrow> (res = no_deals_result
                  \<longleftrightarrow> (\<exists>s. fetch_all_deals (w_hubspot w) None fuel new_session
                                = Some (s, Inr []))))
       \<and> (\<forall>pages. serves (w_hubspot w) 0 None pages \<and> length pages \<le> fuel
            \<longrightarrow> (\<exists>s. fetch_all_deals (w_hubspot w) None fuel new_session
                        = Some (s, Inr (concat (map results pages)))))"
proof -
  from fetch_pipelines_no_match[OF assms(3)] obtain pd sd logs where
    fp: "fetch_pipelines (Inr ps)
           = ((pd, sd, None),
              logs @ [(WARNING, TargetPipelineNotFound TARGET_PIPELINE_NAME
                                  (map (\<lambda>p. entry_label (snd p)) pd))])"
    by blast
  have run: "hubspot_to_bigquery_etl w fuel tbl = run_with_reference_data w (pd, sd, None) fuel tbl"
    by (simp add: hubspot_to_bigquery_etl_def assms(1) assms(2) fp)
  have labels: "distinct (map p_id ps) \<longrightarrow> map (\<lambda>p. entry_label (snd p)) pd = map p_label ps"
    using fetch_pipelines_labels[OF _ fp] by blast
  have every: "\<forall>s deals.
                fetch_all_deals (w_hubspot w) None fuel new_session = Some (s, Inr deals)
                  \<and> deals \<noteq> []
                \<longrightarrow> (\<forall>res tbl'. hubspot_to_bigquery_etl w fuel tbl = Some (res, tbl')
                       \<longrightarrow> (\<exists>e. res = error_result e)
                           \<or> loaded_every_deal w pd sd deals tbl res tbl')
                    \<and> ((\<forall>deal \<in> set deals. \<exists>row.
                           transform_deal (w_lib w) (w_start_time w) pd sd (w_owners w) deal []
                             = Inr row)
                         \<and> w_faults w = no_faults \<and> (\<exists>m. w_meetings w = Inr m)
                       \<longrightarrow> (\<exists>res tbl'. hubspot_to_bigquery_etl w fuel tbl = Some (res, tbl')
                              \<and> loaded_every_deal w pd sd deals tbl res tbl'))"
  proof (intro allI impI, elim conjE)
    fix s deals
    assume f: "fetch_all_deals (w_hubspot w) None fuel new_session = Some (s, Inr deals)"
      and ne: "deals \<noteq> []"
    have a: "\<forall>res tbl'. hubspot_to_bigquery_etl w fuel tbl = Some (res, tbl')
               \<longrightarrow> (\<exists>e. res = error_result e) \<or> loaded_every_deal w pd sd deals tbl res tbl'"
      unfolding run using run_completed_or_error[OF f ne] by blast
    have b: "(\<forall>deal \<in> set deals. \<exists>row.
                transform_deal (w_lib w) (w_start_time w) pd sd (w_owners w) deal [] = Inr row)
              \<and> w_faults w = no_faults \<and> (\<exists>m. w_meetings w = Inr m)
            \<longrightarrow> (\<exists>res tbl'. hubspot_to_bigquery_etl w fuel tbl = Some (res, tbl')
                   \<and> loaded_every_deal w pd sd deals tbl res tbl')"
      unfolding run using run_completes[OF f ne] by blast
    from a b show "(\<forall>res tbl'. hubspot_to_bigquery_etl w fuel tbl = Some (res, tbl')
                       \<longrightarrow> (\<exists>e. res = error_result e)
                           \<or> loaded_every_deal w pd sd deals tbl res tbl')
                    \<and> ((\<forall>deal \<in> set deals. \<exists>row.
                           transform_deal (w_lib w) (w_start_time w) pd sd (w_owners w) deal []
                             = Inr row)
                         \<and> w_faults w = no_faults \<and> (\<exists>m. w_meetings w = Inr m)
                       \<longrightarrow> (\<exists>res tbl'. hubspot_to_bigquery_etl w fuel tbl = Some (res, tbl')
                              \<and> loaded_every_deal w pd sd deals tbl res tbl'))"
      by (rule conjI)
  qed
  have first: "\<exists>pd sd logs.
            fetch_pipelines (pipelines_get_all (w_hubspot w))
              = ((pd, sd, None),
                 logs @ [(WARNING, TargetPipelineNotFound TARGET_PIPELINE_NAME
                                     (map (\<lambda>p. entry_label (snd p)) pd))])
          \<and> (distinct (map p_id ps) \<longrightarrow> map (\<lambda>p. entry_label (snd p)) pd = map p_label ps)
          \<and> hubspot_to_bigquery_etl w fuel tbl = run_with_reference_data w (pd, sd, None) fuel tbl
          \<and> (\<forall>s deals.
                fetch_all_deals (w_hubspot w) None fuel new_session = Some (s, Inr deals)
                  \<and> deals \<noteq> []
                \<longrightarrow> (\<forall>res tbl'. hubspot_to_bigquery_etl w fuel tbl = Some (res, tbl')
                       \<longrightarrow> (\<exists>e. res = error_result e)
                           \<or> loaded_every_deal w pd sd deals tbl res tbl')
                    \<and> ((\<forall>deal \<in> set deals. \<exists>row.
                           transform_deal (w_lib w) (w_start_time w) pd sd (w_owners w) deal []
                             = Inr row)
                         \<and> w_faults w = no_faults \<and> (\<exists>m. w_meetings w = Inr m)
                       \<longrightarrow> (\<exists>res tbl'. hubspot_to_bigquery_etl w fuel tbl = Some (res, tbl')
                              \<and> loaded_every_deal w pd sd deals tbl res tbl')))"
    using fp[folded assms(2)] labels run every by blast
  have none: "(\<exists>s. fetch_all_deals (w_hubspot w) None fuel new_session = Some (s, Inr []))
            \<longrightarrow> hubspot_to_bigquery_etl w fuel tbl = Some (no_deals_result, tbl)"
    unfolding run by (auto simp: run_with_reference_data_def)
  have iff: "\<forall>res tbl'. hubspot_to_bigquery_etl w fuel tbl = Some (res, tbl')
            \<longrightarrow> (res = no_deals_result
                  \<longleftrightarrow> (\<exists>s. fetch_all_deals (w_hubspot w) None fuel new_session
                                = Some (s, Inr [])))"
    unfolding run using run_no_deals_iff by blast
  have pages: "\<forall>pages. serves (w_hubspot w) 0 None pages \<and> length pages \<le> fuel
            \<longrightarrow> (\<exists>s. fetch_all_deals (w_hubspot w) None fuel new_session
                        = Some (s, Inr (concat (map results pages))))"
    using fetch_all_deals_serves[of "w_hubspot w" _ fuel None] by (simp add: filter_page_None)
  from first none iff pages show ?thesis by (intro conjI)
qed

lemma example_reference_data:
  "fst (fetch_pipelines (Inr other_pipelines)) = (other_pipelines_dict, other_stages_dict, None)"
  by (simp add: fetch_pipelines_def other_pipelines_def other_pipelines_dict_def
        other_stages_dict_def TARGET_PIPELINE_NAME_def Let_def)

text \<open>
  The amended claim C9 at an API with the single pipeline "Partnerships": with no deal the
  run returns the zero result, with one deal it loads that deal.
\<close>

theorem pipeline_not_found_witness:
  "hubspot_to_bigquery_etl
     (example_world (example_hubspot\<lparr>pipelines_get_all := Inr other_pipelines\<rparr>)) 1 None
     = Some (no_deals_result, None)
   \<and> fst (fetch_pipelines (Inr other_pipelines))
     = (other_pipelines_dict, other_stages_dict, None)
   \<and> last (snd (fetch_pipelines (Inr other_pipelines)))
     = (WARNING, TargetPipelineNotFound TARGET_PIPELINE_NAME [''Partnerships''])
   \<and> hubspot_to_bigquery_etl (example_world (one_deal_hubspot (Inr other_pipelines))) 1 None
     = Some (completed_result 1, Some [example_loaded_row ''Demo''])
   \<and> loaded_every_deal (example_world (one_deal_hubspot (Inr other_pipelines)))
       other_pipelines_dict other_stages_dict
       [example_deal ''s2''] None (completed_result 1) (Some [example_loaded_row ''Demo''])"
proof -
  let ?w = "example_world (example_hubspot\<lparr>pipelines_get_all := Inr other_pipelines\<rparr>)"
  have l: "pipelines_get_all (w_hubspot ?w) = Inr other_pipelines"
    by (simp add: example_world_def)
  have f: "\<exists>s. fetch_all_deals (w_hubspot ?w) None 1 new_session = Some (s, Inr [])"
    by (simp add: example_world_def example_hubspot_def fetch_all_deals_def filter_page_def
          truthy_def MAX_PAGE_RETRIES_def Let_def)
  note p = pipeline_not_found[OF example_validate l other_pipelines_no_match, of 1 None]
  from p[THEN conjunct2, THEN conjunct1, THEN mp, OF f]
  have a: "hubspot_to_bigquery_etl ?w 1 None = Some (no_deals_result, None)" .
  note b = example_reference_data
  have c: "last (snd (fetch_pipelines (Inr other_pipelines)))
     = (WARNING, TargetPipelineNotFound TARGET_PIPELINE_NAME [''Partnerships''])"
    by (simp add: fetch_pipelines_def other_pipelines_def TARGET_PIPELINE_NAME_def Let_def
          truthy_def)
  let ?v = "example_world (one_deal_hubspot (Inr other_pipelines))"
  have fv: "fetch_all_deals (w_hubspot ?v) None 1 new_session
              = Some (api_call (GetDealsPage None) new_session, Inr [example_deal ''s2''])"
    using example_fetch_one_deal[of "Inr other_pipelines"] by (simp add: example_world_def)
  note run = example_run_other_pipelines
  have runv: "run_with_reference_data ?v (other_pipelines_dict, other_stages_dict, None) 1 None
                = Some (completed_result 1, Some [example_loaded_row ''Demo''])"
  proof -
    have lv: "pipelines_get_all (w_hubspot ?v) = Inr other_pipelines"
      by (simp add: example_world_def one_deal_hubspot_def)
    have "hubspot_to_bigquery_etl ?v 1 None
            = run_with_reference_data ?v (fst (fetch_pipelines (Inr other_pipelines))) 1 None"
      by (simp only: hubspot_to_bigquery_etl_def example_validate lv sum.case)
    with run show ?thesis by (simp only: example_reference_data)
  qed
  have ne: "[example_deal ''s2''] \<noteq> []" by simp
  from run_completed_or_error[OF fv ne runv] completed_not_error have d:
    "loaded_every_deal ?v other_pipelines_dict other_stages_dict [example_deal ''s2''] None
       (completed_result 1) (Some [example_loaded_row ''Demo''])"
    by blast
  from a b c run d show ?thesis by (intro conjI)
qed

text \<open>
  Claim C9 as stated fails at an API with the single pipeline "Partnerships" and one deal:
  no target id is found, yet the run extracts and loads that deal.
\<close>

theorem pipeline_not_found_counterexample:
  "snd (snd (fst (fetch_pipelines (pipelines_get_all (one_deal_hubspot (Inr other_pipelines))))))
     = None
   \<and> map_option fst
       (hubspot_to_bigquery_etl (example_world (one_deal_hubspot (Inr other_pipelines))) 1 None)
     = Some (completed_result 1)
   \<and> deals_extracted (completed_result 1) = Some 1
   \<and> rows_loaded (completed_result 1) = Some 1
   \<and> completed_result 1 \<noteq> no_deals_result"
proof -
  have a: "snd (snd (fst (fetch_pipelines
              (pipelines_get_all (one_deal_hubspot (Inr other_pipelines)))))) = None"
    by (simp add: one_deal_hubspot_def fetch_pipelines_def other_pipelines_def
          TARGET_PIPELINE_NAME_def Let_def)
  have b: "map_option fst
       (hubspot_to_bigquery_etl (example_world (one_deal_hubspot (Inr other_pipelines))) 1 None)
     = Some (completed_result 1)"
    using example_run_other_pipelines by simp
  have c: "deals_extracted (completed_result 1) = Some 1
     \<and> rows_loaded (completed_result 1) = Some 1
     \<and> completed_result 1 \<noteq> no_deals_result"
    by (simp add: completed_result_def no_deals_result_def)
  from a b c show ?thesis by blast
qed

text \<open>
  Claim C10. When the pipelines listing raises, the loader returns two empty dictionaries
  and no target id, as for an empty listing, and logs a warning. A run with a valid
  configuration continues with that reference data. Its fetch applies no filter, and from
  an API that serves its pages without failure it returns every deal of every page. Every
  transformed row has an empty pipeline label and an empty stage label. When the fetch
  returns no deal the run returns the zero result; otherwise a run that ends either reports
  the exception of a later step or has loaded every fetched deal, with empty labels on
  every row of the snapshot date, and it does load every deal when each deal transforms, no
  warehouse operation fails and the meetings part succeeds.
\<close>

theorem pipeline_listing_failure:
  assumes "pipelines_get_all (w_hubspot w) = Inl e"
  shows "fetch_pipelines (pipelines_get_all (w_hubspot w))
           = (([], [], None), [(INFO, FetchingPipelines), (WARNING, CouldNotFetchPipelines e)])
       \<and> fst (fetch_pipelines (pipelines_get_all (w_hubspot w))) = fst (fetch_pipelines (Inr []))
       \<and> (\<forall>ok. validate_environment (w_config w) = Inr ok
            \<longrightarrow> hubspot_to_bigquery_etl w fuel tbl
                  = run_with_reference_data w ([], [], None) fuel tbl)
       \<and> filter_page (snd (snd (fst (fetch_pipelines (pipelines_get_all (w_hubspot w)))))) deals
           = deals
       \<and> (\<forall>pages. serves (w_hubspot w) 0 None pages \<and> length pages \<le> fuel
            \<longrightarrow> (\<exists>s. fetch_all_deals (w_hubspot w)
                         (snd (snd (fst (fetch_pipelines (pipelines_get_all (w_hubspot w))))))
                         fuel new_session
                        = Some (s, Inr (concat (map results pages)))))
       \<and> (\<forall>s s' df.
            transform_deals (w_hubspot w) (w_lib w) (w_start_time w) [] [] (w_owners w) deals s
              = (s', Inr df)
            \<longrightarrow> length df = length deals
                \<and> (\<forall>r \<in> set df. pipeline_label r = [] \<and> dealstage_label r = []))
       \<and> (\<forall>ok s fetched.
            validate_environment (w_config w) = Inr ok
              \<and> fetch_all_deals (w_hubspot w) None fuel new_session = Some (s, Inr fetched)
            \<longrightarrow> (fetched = [] \<longrightarrow> hubspot_to_bigquery_etl w fuel tbl = Some (no_deals_result, tbl))
                \<and> (fetched \<noteq> [] \<longrightarrow>
                     (\<forall>res tbl'. hubspot_to_bigquery_etl w fuel tbl = Some (res, tbl')
                        \<longrightarrow> (\<exists>e'. res = error_result e')
                            \<or> (loaded_every_deal w [] [] fetched tbl res tbl'
                               \<and> (\<forall>r \<in> set (rows_of_date (date_isoformat (w_start_time w)) tbl').
                                     pipeline_label r = [] \<and> dealstage_label r = [])))
                   \<and> ((\<forall>deal \<in> set fetched. \<exists>row.
                          transform_deal (w_lib w) (w_start_time w) [] [] (w_owners w) deal []
                            = Inr row)
                        \<and> w_faults w = no_faults \<and> (\<exists>m. w_meetings w = Inr m)
                      \<longrightarrow> (\<exists>res tbl'. hubspot_to_bigquery_etl w fuel tbl = Some (res, tbl')
                             \<and> loaded_every_deal w [] [] fetched tbl res tbl'))))"
proof -
  have fp: "fetch_pipelines (pipelines_get_all (w_hubspot w))
           = (([], [], None), [(INFO, FetchingPipelines), (WARNING, CouldNotFetchPipelines e)])"
    unfolding assms by (rule fetch_pipelines_raises)
  have same: "fst (fetch_pipelines (pipelines_get_all (w_hubspot w))) = fst (fetch_pipelines (Inr []))"
    unfolding fp by (simp add: fetch_pipelines_def Let_def)
  have run: "\<And>ok. validate_environment (w_config w) = Inr ok
            \<Longrightarrow> hubspot_to_bigquery_etl w fuel tbl
                  = run_with_reference_data w ([], [], None) fuel tbl"
    by (simp add: hubspot_to_bigquery_etl_def fp)
  have nofilter:
    "filter_page (snd (snd (fst (fetch_pipelines (pipelines_get_all (w_hubspot w)))))) deals
       = deals"
    unfolding fp by (simp add: filter_page_None)
  have pages: "\<forall>pages. serves (w_hubspot w) 0 None pages \<and> length pages \<le> fuel
            \<longrightarrow> (\<exists>s. fetch_all_deals (w_hubspot w)
                         (snd (snd (fst (fetch_pipelines (pipelines_get_all (w_hubspot w))))))
                         fuel new_session
                        = Some (s, Inr (concat (map results pages))))"
    unfolding fp using fetch_all_deals_serves[of "w_hubspot w" _ fuel None]
    by (simp add: filter_page_None)
  have rows: "\<forall>s s' df.
            transform_deals (w_hubspot w) (w_lib w) (w_start_time w) [] [] (w_owners w) deals s
              = (s', Inr df)
            \<longrightarrow> length df = length deals
                \<and> (\<forall>r \<in> set df. pipeline_label r = [] \<and> dealstage_label r = [])"
  proof (intro allI impI)
    fix s s' df
    assume "transform_deals (w_hubspot w) (w_lib w) (w_start_time w) [] [] (w_owners w) deals s
              = (s', Inr df)"
    note l = transform_deals_rows[OF this]
    have "\<forall>r \<in> set df. pipeline_label r = [] \<and> dealstage_label r = []"
    proof
      fix r assume "r \<in> set df"
      with l obtain deal contacts where
        "transform_deal (w_lib w) (w_start_time w) [] [] (w_owners w) deal contacts = Inr r"
        by (auto simp: list_all2_conv_all_nth in_set_conv_nth)
      then show "pipeline_label r = [] \<and> dealstage_label r = []"
        by (rule transform_deal_without_reference_data)
    qed
    with l show "length df = length deals
            \<and> (\<forall>r \<in> set df. pipeline_label r = [] \<and> dealstage_label r = [])"
      by (auto dest: list_all2_lengthD)
  qed
  have whole: "\<forall>ok s fetched.
            validate_environment (w_config w) = Inr ok
              \<and> fetch_all_deals (w_hubspot w) None fuel new_session = Some (s, Inr fetched)
            \<longrightarrow> (fetched = [] \<longrightarrow> hubspot_to_bigquery_etl w fuel tbl = Some (no_deals_result, tbl))
                \<and> (fetched \<noteq> [] \<longrightarrow>
                     (\<forall>res tbl'. hubspot_to_bigquery_etl w fuel tbl = Some (res, tbl')
                        \<longrightarrow> (\<exists>e'. res = error_result e')
                            \<or> (loaded_every_deal w [] [] fetched tbl res tbl'
                               \<and> (\<forall>r \<in> set (rows_of_date (date_isoformat (w_start_time w)) tbl').
                                     pipeline_label r = [] \<and> dealstage_label r = [])))
                   \<and> ((\<forall>deal \<in> set fetched. \<exists>row.
                          transform_deal (w_lib w) (w_start_time w) [] [] (w_owners w) deal []
                            = Inr row)
                        \<and> w_faults w = no_faults \<and> (\<exists>m. w_meetings w = Inr m)
                      \<longrightarrow> (\<exists>res tbl'. hubspot_to_bigquery_etl w fuel tbl = Some (res, tbl')
                             \<and> loaded_every_deal w [] [] fetched tbl res tbl')))"
  proof (intro allI impI, elim conjE)
    fix ok s fetched
    assume v: "validate_environment (w_config w) = Inr ok"
      and f: "fetch_all_deals (w_hubspot w) None fuel new_session = Some (s, Inr fetched)"
    note r = run[OF v]
    have a: "fetched = [] \<longrightarrow> hubspot_to_bigquery_etl w fuel tbl = Some (no_deals_result, tbl)"
      unfolding r using f by (simp add: run_with_reference_data_def)
    have b: "fetched \<noteq> [] \<longrightarrow>
               (\<forall>res tbl'. hubspot_to_bigquery_etl w fuel tbl = Some (res, tbl')
                  \<longrightarrow> (\<exists>e'. res = error_result e')
                      \<or> (loaded_every_deal w [] [] fetched tbl res tbl'
                         \<and> (\<forall>r \<in> set (rows_of_date (date_isoformat (w_start_time w)) tbl').
                               pipeline_label r = [] \<and> dealstage_label r = [])))"
      unfolding r
      using run_completed_or_error[OF f] loaded_rows_without_reference_data by blast
    have c: "fetched \<noteq> [] \<longrightarrow>
               ((\<forall>deal \<in> set fetched. \<exists>row.
                    transform_deal (w_lib w) (w_start_time w) [] [] (w_owners w) deal [] = Inr row)
                  \<and> w_faults w = no_faults \<and> (\<exists>m. w_meetings w = Inr m)
                \<longrightarrow> (\<exists>res tbl'. hubspot_to_bigquery_etl w fuel tbl = Some (res, tbl')
                       \<and> loaded_every_deal w [] [] fetched tbl res tbl'))"
      unfolding r using run_completes[OF f] by blast
    from a b c show
      "(fetched = [] \<longrightarrow> hubspot_to_bigquery_etl w fuel tbl = Some (no_deals_result, tbl))
        \<and> (fetched \<noteq> [] \<longrightarrow>
             (\<forall>res tbl'. hubspot_to_bigquery_etl w fuel tbl = Some (res, tbl')
                \<longrightarrow> (\<exists>e'. res = error_result e')
                    \<or> (loaded_every_deal w [] [] fetched tbl res tbl'
                       \<and> (\<forall>r \<in> set (rows_of_date (date_isoformat (w_start_time w)) tbl').
                             pipeline_label r = [] \<and> dealstage_label r = [])))
           \<and> ((\<forall>deal \<in> set fetched. \<exists>row.
                  transform_deal (w_lib w) (w_start_time w) [] [] (w_owners w) deal []
                    = Inr row)
                \<and> w_faults w = no_faults \<and> (\<exists>m. w_meetings w = Inr m)
              \<longrightarrow> (\<exists>res tbl'. hubspot_to_bigquery_etl w fuel tbl = Some (res, tbl')
                     \<and> loaded_every_deal w [] [] fetched tbl res tbl')))"
      by (intro conjI impI) blast+
  qed
  have runall: "\<forall>ok. validate_environment (w_config w) = Inr ok
            \<longrightarrow> hubspot_to_bigquery_etl w fuel tbl
                  = run_with_reference_data w ([], [], None) fuel tbl"
    using run by blast
  from fp same runall nofilter pages rows whole show ?thesis by (intro conjI)
qed

text \<open>
  Claim C10 at an API whose listing is refused and that serves one page with one deal: the
  run succeeds and loads the deal with empty labels.
\<close>

theorem pipeline_listing_failure_witness:
  "fst (fetch_pipelines (pipelines_get_all (one_deal_hubspot (Inl listing_error))))
     = ([], [], None)
   \<and> fetch_all_deals (one_deal_hubspot (Inl listing_error)) None 1 new_session
     = Some (api_call (GetDealsPage None) new_session, Inr [example_deal ''s2''])
   \<and> hubspot_to_bigquery_etl (example_world (one_deal_hubspot (Inl listing_error))) 1 None
     = Some (completed_result 0, Some [example_loaded_row []])
   \<and> loaded_every_deal (example_world (one_deal_hubspot (Inl listing_error))) [] []
       [example_deal ''s2''] None (completed_result 0) (Some [example_loaded_row []])
   \<and> status (completed_result 0) = ''success''
   \<and> pipeline_label (example_loaded_row []) = []
   \<and> dealstage_label (example_loaded_row []) = []"
proof -
  let ?hs = "one_deal_hubspot (Inl listing_error)"
  let ?w = "example_world ?hs"
  have hs: "w_hubspot ?w = ?hs" by (simp add: example_world_def)
  have l: "pipelines_get_all (w_hubspot ?w) = Inl listing_error"
    by (simp add: example_world_def one_deal_hubspot_def)
  note p = pipeline_listing_failure[OF l, of 1 None "[]"]
  from p[THEN conjunct1] have a: "fst (fetch_pipelines (pipelines_get_all ?hs)) = ([], [], None)"
    unfolding hs by simp
  have f: "fetch_all_deals ?hs None 1 new_session
             = Some (api_call (GetDealsPage None) new_session, Inr [example_deal ''s2''])"
    by (rule example_fetch_one_deal)
  have fw: "fetch_all_deals (w_hubspot ?w) None 1 new_session
              = Some (api_call (GetDealsPage None) new_session, Inr [example_deal ''s2''])"
    unfolding hs by (rule f)
  note run = example_run_listing_error
  from p[THEN conjunct2, THEN conjunct2, THEN conjunct1, rule_format, OF example_validate] run
  have runw: "run_with_reference_data ?w ([], [], None) 1 None
                = Some (completed_result 0, Some [example_loaded_row []])"
    by simp
  have ne: "[example_deal ''s2''] \<noteq> []" by simp
  from run_completed_or_error[OF fw ne runw] completed_not_error have c:
    "loaded_every_deal ?w [] [] [example_deal ''s2''] None (completed_result 0)
       (Some [example_loaded_row []])" by blast
  have d: "status (completed_result 0) = ''success''"
    and e: "pipeline_label (example_loaded_row []) = []"
    and g: "dealstage_label (example_loaded_row []) = []"
    by (simp_all add: completed_result_def example_loaded_row_def)
  from a f run c d e g show ?thesis by (intro conjI)
qed

end
